theory Spec2Isabelle
  imports Complex_Main
begin

section \<open>Values of the JavaScript runtime\<close>

text \<open>
  A JavaScript number is a double. The handlers only compare numbers, clamp them and
  test them for zero, so a finite double is carried as the rational it denotes;
  \<open>NaN\<close> and the two infinities are values of their own (\<open>Number\<close> yields \<open>NaN\<close>,
  \<open>JSON.parse\<close> yields an infinity for a literal such as \<open>1e999\<close>).
\<close>

datatype jsnum = NaN | NegInf | Fin rat | PosInf

text \<open>
  What \<open>JSON.parse\<close> returns for a request body. An object lists its own properties,
  each key once.
\<close>

datatype json =
    JNull
  | JBool bool
  | JNum jsnum
  | JStr string
  | JArr "json list"
  | JObj "(string \<times> json) list"

text \<open>The relation \<open>a <= b\<close> on numbers: false as soon as one side is \<open>NaN\<close>.\<close>

fun jsnum_le :: "jsnum \<Rightarrow> jsnum \<Rightarrow> bool" where
  "jsnum_le NaN b = False"
| "jsnum_le a NaN = False"
| "jsnum_le NegInf b = True"
| "jsnum_le a PosInf = True"
| "jsnum_le (Fin a) (Fin b) = (a \<le> b)"
| "jsnum_le a b = False"

text \<open>\<open>Math.min\<close> and \<open>Math.max\<close>: \<open>NaN\<close> if an argument is \<open>NaN\<close>.\<close>

definition Math_min :: "jsnum \<Rightarrow> jsnum \<Rightarrow> jsnum" where
  "Math_min a b = (if a = NaN \<or> b = NaN then NaN else if jsnum_le a b then a else b)"

definition Math_max :: "jsnum \<Rightarrow> jsnum \<Rightarrow> jsnum" where
  "Math_max a b = (if a = NaN \<or> b = NaN then NaN else if jsnum_le a b then b else a)"

text \<open>Truthiness (\<open>ToBoolean\<close>); an absent value (\<open>undefined\<close>) is \<open>None\<close>.\<close>

fun truthy :: "json \<Rightarrow> bool" where
  "truthy JNull = False"
| "truthy (JBool b) = b"
| "truthy (JNum n) = (n \<noteq> NaN \<and> n \<noteq> Fin 0)"
| "truthy (JStr s) = (s \<noteq> [])"
| "truthy (JArr xs) = True"
| "truthy (JObj kvs) = True"

definition js_truthy :: "json option \<Rightarrow> bool" where
  "js_truthy v = (case v of None \<Rightarrow> False | Some j \<Rightarrow> truthy j)"

text \<open>
  \<open>Number(v)\<close>. The primitive cases follow \<open>ToNumber\<close>. A string goes through the
  numeric-literal grammar, an array or object through \<open>ToPrimitive\<close> first; both depend
  on number parsing and printing, so the coercion of these values is the parameter
  \<open>conv\<close> (\<open>None\<close>: the coercion throws a TypeError).
\<close>

fun Number_js :: "(json \<Rightarrow> jsnum option) \<Rightarrow> json \<Rightarrow> jsnum option" where
  "Number_js conv JNull = Some (Fin 0)"
| "Number_js conv (JBool b) = Some (Fin (if b then 1 else 0))"
| "Number_js conv (JNum n) = Some n"
| "Number_js conv v = conv v"

text \<open>
  \<open>JSON.parse(JSON.stringify(v))\<close>: the value is rebuilt node by node;
  \<open>JSON.stringify\<close> writes a number that is not finite as \<open>null\<close>.
\<close>

primrec deep_copy :: "json \<Rightarrow> json" where
  "deep_copy JNull = JNull"
| "deep_copy (JBool b) = JBool b"
| "deep_copy (JNum n) = (case n of Fin r \<Rightarrow> JNum (Fin r) | _ \<Rightarrow> JNull)"
| "deep_copy (JStr s) = JStr s"
| "deep_copy (JArr xs) = JArr (map deep_copy xs)"
| "deep_copy (JObj kvs) = JObj (map (map_prod id deep_copy) kvs)"


text \<open>
  Reading a property of a plain object used as a dictionary: an own property, or one of
  the properties every object inherits from \<open>Object.prototype\<close>, or nothing.
\<close>

datatype 'a property = Own 'a | Inherited | Absent

definition Object_prototype_keys :: "string list" where
  "Object_prototype_keys =
     [''constructor'', ''__proto__'', ''toString'', ''valueOf'', ''toLocaleString'',
      ''hasOwnProperty'', ''isPrototypeOf'', ''propertyIsEnumerable'',
      ''__defineGetter__'', ''__defineSetter__'', ''__lookupGetter__'', ''__lookupSetter__'']"

definition js_get :: "(string \<rightharpoonup> 'a) \<Rightarrow> string \<Rightarrow> 'a property" where
  "js_get m k =
     (case m k of
        Some v \<Rightarrow> Own v
      | None \<Rightarrow> if k \<in> set Object_prototype_keys then Inherited else Absent)"

section \<open>The store\<close>

record vs_entry =
  vs_wins :: int
  vs_losses :: int

record stats =
  wins :: int
  losses :: int
  vs :: "string \<rightharpoonup> vs_entry"

record user =
  user_id :: string
  username :: string
  salt :: string
  hash :: string
  user_stats :: "stats option"

record seat =
  seat_id :: string
  seat_username :: string
  connected :: bool

text \<open>\<open>revision\<close>, \<open>wins\<close> and \<open>losses\<close> are counters stepped by one: unbounded integers.\<close>

record room =
  room_id :: string
  hostId :: string
  players :: "seat list"
  maxPlayers :: jsnum
  started :: bool
  locked :: bool
  state :: "json option"
  revision :: int

record history_entry =
  entry_id :: string
  roomId :: string
  entry_players :: "string list"
  winner :: string
  entry_at :: int

record db =
  users :: "user list"
  sessions :: "string \<rightharpoonup> string"
  rooms :: "string \<rightharpoonup> room"
  history :: "history_entry list"

definition defaultDb :: db where
  "defaultDb = \<lparr>users = [], sessions = Map.empty, rooms = Map.empty, history = []\<rparr>"

section \<open>Requests and responses\<close>

text \<open>
  \<open>Fail code msg\<close> is \<open>json(res, code, {error: msg})\<close>; \<open>Thrown\<close> is an exception caught
  by the handler's \<open>try\<close>, answered with status 500.
\<close>

datatype failure = Fail nat string | Thrown

record room_view =
  view_id :: string
  view_hostId :: string
  view_players :: "seat list"
  view_started :: bool
  view_locked :: bool
  view_revision :: int
  view_state :: json
  youAreHost :: bool

datatype payload = RoomPayload room_view | OkRevision int

type_synonym response = "failure + payload"

text \<open>
  \<open>readBody\<close> followed by the destructuring of the result. \<open>None\<close> is a body that
  \<open>JSON.parse\<close> rejects; an empty body reads as \<open>{}\<close>. Destructuring \<open>null\<close> throws,
  any other value that is not an object has none of the fields.
\<close>

definition destructure :: "json option \<Rightarrow> (string \<Rightarrow> json option) option" where
  "destructure body =
     (case body of
        None \<Rightarrow> None
      | Some JNull \<Rightarrow> None
      | Some (JObj kvs) \<Rightarrow> Some (map_of kvs)
      | Some _ \<Rightarrow> Some (\<lambda>k. None))"

text \<open>
  \<open>authUser\<close>: the bearer token of the \<open>authorization\<close> header, looked up in the
  sessions and then among the users. A token that names an inherited property reads as
  an object, which equals no user id, so \<open>find\<close> returns nothing.
\<close>

definition startsWith :: "string \<Rightarrow> string \<Rightarrow> bool" where
  "startsWith s p = (take (length p) s = p)"

definition authUser :: "db \<Rightarrow> string option \<Rightarrow> user option" where
  "authUser d authorization =
     (let auth = (case authorization of None \<Rightarrow> [] | Some a \<Rightarrow> a);
          token = (if startsWith auth ''Bearer '' then Some (drop 7 auth) else None)
      in case token of
           None \<Rightarrow> None
         | Some t \<Rightarrow>
             if t = [] then None
             else (case js_get (sessions d) t of
                     Absent \<Rightarrow> None
                   | Inherited \<Rightarrow> None
                   | Own i \<Rightarrow> if i = [] then None else find (\<lambda>u. user_id u = i) (users d)))"

definition sanitizeRoom :: "room \<Rightarrow> string \<Rightarrow> room_view" where
  "sanitizeRoom r requesterId =
     \<lparr>view_id = room_id r,
      view_hostId = hostId r,
      view_players =
        map (\<lambda>p. \<lparr>seat_id = seat_id p, seat_username = seat_username p, connected = connected p\<rparr>)
          (players r),
      view_started = started r,
      view_locked = locked r,
      view_revision = revision r,
      view_state =
        (case state r of
           None \<Rightarrow> JNull
         | Some v \<Rightarrow> if truthy v then deep_copy v else JNull),
      youAreHost = (hostId r = requesterId)\<rparr>"

definition ensureStats :: "user \<Rightarrow> stats" where
  "ensureStats u =
     (case user_stats u of
        None \<Rightarrow> \<lparr>wins = 0, losses = 0, vs = Map.empty\<rparr>
      | Some s \<Rightarrow> s)"

section \<open>The room handlers\<close>

text \<open>\<open>a || b\<close> for a possibly absent \<open>a\<close>.\<close>

definition js_or :: "json option \<Rightarrow> json \<Rightarrow> json" where
  "js_or a b = (case a of None \<Rightarrow> b | Some v \<Rightarrow> if truthy v then v else b)"

text \<open>
  \<open>POST /api/rooms\<close>. \<open>uuid\<close> is the value \<open>randomUUID()\<close> returns during the call.
\<close>

definition rooms_create ::
  "(json \<Rightarrow> jsnum option) \<Rightarrow> db \<Rightarrow> string option \<Rightarrow> json option \<Rightarrow> string \<Rightarrow> response \<times> db" where
  "rooms_create conv d authorization body uuid =
     (case authUser d authorization of
        None \<Rightarrow> (Inl (Fail 401 ''unauthorized''), d)
      | Some u \<Rightarrow>
          (case destructure body of
             None \<Rightarrow> (Inl Thrown, d)
           | Some field \<Rightarrow>
               (case Number_js conv (js_or (field ''maxPlayers'') (JNum (Fin 4))) of
                  None \<Rightarrow> (Inl Thrown, d)
                | Some n \<Rightarrow>
                    let max = Math_max (Fin 2) (Math_min (Fin 4) n);
                        r = \<lparr>room_id = take 8 uuid, hostId = user_id u,
                             players = [\<lparr>seat_id = user_id u, seat_username = username u,
                                         connected = True\<rparr>],
                             maxPlayers = max, started = False, locked = False,
                             state = Some JNull, revision = 0\<rparr>
                    in (Inr (RoomPayload (sanitizeRoom r (user_id u))),
                        d\<lparr>rooms := (rooms d)(room_id r \<mapsto> r)\<rparr>))))"

text \<open>\<open>seat.connected = true\<close> on the seat that \<open>find\<close> returned: the first with that id.\<close>

fun mark_connected :: "string \<Rightarrow> seat list \<Rightarrow> seat list" where
  "mark_connected i [] = []"
| "mark_connected i (p # ps) =
     (if seat_id p = i then p\<lparr>connected := True\<rparr> # ps else p # mark_connected i ps)"

text \<open>
  \<open>POST /api/rooms/:id/join\<close>. A room identifier that names an inherited property
  yields an object without \<open>players\<close>, and \<open>room.players.find\<close> throws.
\<close>

definition rooms_join :: "db \<Rightarrow> string option \<Rightarrow> string \<Rightarrow> response \<times> db" where
  "rooms_join d authorization rid =
     (case authUser d authorization of
        None \<Rightarrow> (Inl (Fail 401 ''unauthorized''), d)
      | Some u \<Rightarrow>
          (case js_get (rooms d) rid of
             Absent \<Rightarrow> (Inl (Fail 404 ''room not found''), d)
           | Inherited \<Rightarrow> (Inl Thrown, d)
           | Own r \<Rightarrow>
               (case find (\<lambda>p. seat_id p = user_id u) (players r) of
                  None \<Rightarrow>
                    if started r \<or> jsnum_le (maxPlayers r) (Fin (of_nat (length (players r))))
                    then (Inl (Fail 400 ''room full or started''), d)
                    else
                      let r' = r\<lparr>players :=
                                   mark_connected (user_id u)
                                     (players r @ [\<lparr>seat_id = user_id u,
                                                    seat_username = username u,
                                                    connected = True\<rparr>]),
                                 revision := revision r + 1\<rparr>
                      in (Inr (RoomPayload (sanitizeRoom r' (user_id u))),
                          d\<lparr>rooms := (rooms d)(rid \<mapsto> r')\<rparr>)
                | Some s \<Rightarrow>
                    let r' = r\<lparr>players := mark_connected (user_id u) (players r),
                               revision := revision r + 1\<rparr>
                    in (Inr (RoomPayload (sanitizeRoom r' (user_id u))),
                        d\<lparr>rooms := (rooms d)(rid \<mapsto> r')\<rparr>))))"

text \<open>
  \<open>POST /api/rooms/:id/start\<close>. On an inherited property \<open>room.hostId\<close> is undefined,
  which differs from every user id.
\<close>

definition rooms_start :: "db \<Rightarrow> string option \<Rightarrow> string \<Rightarrow> json option \<Rightarrow> response \<times> db" where
  "rooms_start d authorization rid body =
     (case authUser d authorization of
        None \<Rightarrow> (Inl (Fail 401 ''unauthorized''), d)
      | Some u \<Rightarrow>
          (case js_get (rooms d) rid of
             Absent \<Rightarrow> (Inl (Fail 404 ''room not found''), d)
           | Inherited \<Rightarrow> (Inl (Fail 403 ''host only''), d)
           | Own r \<Rightarrow>
               if hostId r \<noteq> user_id u then (Inl (Fail 403 ''host only''), d)
               else if length (players r) < 2 \<or> length (players r) > 4
               then (Inl (Fail 400 ''need 2-4 players''), d)
               else
                 (case destructure body of
                    None \<Rightarrow> (Inl Thrown, d)
                  | Some field \<Rightarrow>
                      let r' = r\<lparr>started := True,
                                 state := Some (js_or (field ''state'') JNull),
                                 revision := revision r + 1\<rparr>
                      in (Inr (RoomPayload (sanitizeRoom r' (user_id u))),
                          d\<lparr>rooms := (rooms d)(rid \<mapsto> r')\<rparr>))))"

subsection \<open>The statistics of a concluded match\<close>

text \<open>
  \<open>stats.vs[name] ||= {wins: 0, losses: 0}\<close> and the increment that follows. When \<open>name\<close>
  is an inherited property and no own one, the read is truthy, nothing is assigned and
  the increment lands on the inherited object: \<open>vs\<close> keeps its own properties.
\<close>

definition bump_vs :: "bool \<Rightarrow> string \<Rightarrow> (string \<rightharpoonup> vs_entry) \<Rightarrow> (string \<rightharpoonup> vs_entry)" where
  "bump_vs won name m =
     (let bump = (\<lambda>e. if won then e\<lparr>vs_wins := vs_wins e + 1\<rparr>
                       else e\<lparr>vs_losses := vs_losses e + 1\<rparr>)
      in case js_get m name of
           Own e \<Rightarrow> m(name \<mapsto> bump e)
         | Inherited \<Rightarrow> m
         | Absent \<Rightarrow> m(name \<mapsto> bump \<lparr>vs_wins = 0, vs_losses = 0\<rparr>))"

text \<open>An update in place of the object that \<open>find\<close> returned.\<close>

fun update_first :: "('a \<Rightarrow> bool) \<Rightarrow> ('a \<Rightarrow> 'a) \<Rightarrow> 'a list \<Rightarrow> 'a list" where
  "update_first P f [] = []"
| "update_first P f (x # xs) = (if P x then f x # xs else x # update_first P f xs)"

text \<open>The body of \<open>room.players.forEach\<close> for the seat \<open>p\<close>; \<open>w\<close> is \<open>winner.id\<close>.\<close>

definition record_result :: "seat list \<Rightarrow> string \<Rightarrow> seat \<Rightarrow> user list \<Rightarrow> user list" where
  "record_result ps w p us =
     (case find (\<lambda>x. user_id x = seat_id p) us of
        None \<Rightarrow> us
      | Some u \<Rightarrow>
          let st = ensureStats u;
              st1 = (if seat_id p = w then st\<lparr>wins := wins st + 1\<rparr>
                     else st\<lparr>losses := losses st + 1\<rparr>);
              st2 = st1\<lparr>vs := fold (\<lambda>op. bump_vs (seat_id p = w) (seat_username op))
                                  (filter (\<lambda>op. seat_id op \<noteq> seat_id p) ps) (vs st1)\<rparr>
          in update_first (\<lambda>x. user_id x = seat_id p) (\<lambda>x. x\<lparr>user_stats := Some st2\<rparr>) us)"

definition aggregate :: "seat list \<Rightarrow> string \<Rightarrow> user list \<Rightarrow> user list" where
  "aggregate ps w us = fold (record_result ps w) ps us"

text \<open>
  \<open>POST /api/rooms/:id/state\<close>. \<open>uuid\<close> and \<open>now\<close> are what \<open>randomUUID()\<close> and
  \<open>Date.now()\<close> return when the history entry is built. \<open>p.id === reportWinnerId\<close>
  holds only for a string equal to the seat's id.
\<close>

definition rooms_state ::
  "db \<Rightarrow> string option \<Rightarrow> string \<Rightarrow> json option \<Rightarrow> string \<Rightarrow> int \<Rightarrow> response \<times> db" where
  "rooms_state d authorization rid body uuid now =
     (case authUser d authorization of
        None \<Rightarrow> (Inl (Fail 401 ''unauthorized''), d)
      | Some u \<Rightarrow>
          (case js_get (rooms d) rid of
             Absent \<Rightarrow> (Inl (Fail 404 ''room not found''), d)
           | Inherited \<Rightarrow> (Inl Thrown, d)
           | Own r \<Rightarrow>
               if \<not> list_ex (\<lambda>p. seat_id p = user_id u) (players r)
               then (Inl (Fail 403 ''not in room''), d)
               else
                 (case destructure body of
                    None \<Rightarrow> (Inl Thrown, d)
                  | Some field \<Rightarrow>
                      let r1 = r\<lparr>state := field ''state'', revision := revision r + 1\<rparr>;
                          reportWinnerId = field ''reportWinnerId'';
                          found = (if js_truthy reportWinnerId \<and> started r1
                                   then find (\<lambda>p. reportWinnerId = Some (JStr (seat_id p)))
                                          (players r1)
                                   else None)
                      in (case found of
                           None \<Rightarrow>
                             (Inr (OkRevision (revision r1)),
                              d\<lparr>rooms := (rooms d)(rid \<mapsto> r1)\<rparr>)
                         | Some win \<Rightarrow>
                             let r2 = r1\<lparr>started := False\<rparr>
                             in (Inr (OkRevision (revision r2)),
                                 d\<lparr>users := aggregate (players r1) (seat_id win) (users d),
                                   history := history d @
                                     [\<lparr>entry_id = uuid, roomId = rid,
                                       entry_players = map seat_username (players r1),
                                       winner = seat_username win, entry_at = now\<rparr>],
                                   rooms := (rooms d)(rid \<mapsto> r2)\<rparr>)))))"

text \<open>\<open>GET /api/rooms/:id\<close>.\<close>

definition rooms_read :: "db \<Rightarrow> string option \<Rightarrow> string \<Rightarrow> response \<times> db" where
  "rooms_read d authorization rid =
     (case authUser d authorization of
        None \<Rightarrow> (Inl (Fail 401 ''unauthorized''), d)
      | Some u \<Rightarrow>
          (case js_get (rooms d) rid of
             Absent \<Rightarrow> (Inl (Fail 404 ''room not found''), d)
           | Inherited \<Rightarrow> (Inl Thrown, d)
           | Own r \<Rightarrow>
               let r' = r\<lparr>players := mark_connected (user_id u) (players r)\<rparr>
               in (Inr (RoomPayload (sanitizeRoom r' (user_id u))),
                   d\<lparr>rooms := (rooms d)(rid \<mapsto> r')\<rparr>)))"

subsection \<open>Requests and runs\<close>

datatype request =
    Create "string option" "json option" string
  | Join "string option" string
  | Start "string option" string "json option"
  | State "string option" string "json option" string int
  | Read "string option" string

fun handle :: "(json \<Rightarrow> jsnum option) \<Rightarrow> db \<Rightarrow> request \<Rightarrow> response \<times> db" where
  "handle conv d (Create a body uuid) = rooms_create conv d a body uuid"
| "handle conv d (Join a rid) = rooms_join d a rid"
| "handle conv d (Start a rid body) = rooms_start d a rid body"
| "handle conv d (State a rid body uuid now) = rooms_state d a rid body uuid now"
| "handle conv d (Read a rid) = rooms_read d a rid"

text \<open>The store after a sequence of requests, served one after the other.\<close>

fun run :: "(json \<Rightarrow> jsnum option) \<Rightarrow> db \<Rightarrow> request list \<Rightarrow> db" where
  "run conv d [] = d"
| "run conv d (q # qs) = run conv (snd (handle conv d q)) qs"


subsection \<open>Properties of requests and stores\<close>

text \<open>The requests that change the room \<open>rid\<close>: join, start and state update.\<close>

fun mutates :: "string \<Rightarrow> request \<Rightarrow> bool" where
  "mutates rid (Join a rid') = (rid' = rid)"
| "mutates rid (Start a rid' body) = (rid' = rid)"
| "mutates rid (State a rid' body uuid now) = (rid' = rid)"
| "mutates rid q = False"

definition accepted :: "(json \<Rightarrow> jsnum option) \<Rightarrow> db \<Rightarrow> request \<Rightarrow> bool" where
  "accepted conv d q = (\<not> isl (fst (handle conv d q)))"

text \<open>How many requests of a run changed the room \<open>rid\<close> and were accepted.\<close>

fun accepted_mutations ::
  "(json \<Rightarrow> jsnum option) \<Rightarrow> db \<Rightarrow> string \<Rightarrow> request list \<Rightarrow> nat" where
  "accepted_mutations conv d rid [] = 0"
| "accepted_mutations conv d rid (q # qs) =
     (if mutates rid q \<and> accepted conv d q then 1 else 0)
       + accepted_mutations conv (snd (handle conv d q)) rid qs"

text \<open>
  A create request whose \<open>randomUUID()\<close> begins with the identifier \<open>rid\<close>: it would
  put a new room object under an identifier already given out.
\<close>

fun redraws :: "string \<Rightarrow> request \<Rightarrow> bool" where
  "redraws rid (Create a body uuid) = (take 8 uuid = rid)"
| "redraws rid q = False"

text \<open>
  Some request of the run is an accepted create whose identifier is \<open>rid\<close>:
  \<open>db.rooms[room.id] = room\<close> is done without a look at what \<open>db.rooms\<close> holds, so the
  room that \<open>rid\<close> named is replaced by the new one.
\<close>

fun replaced :: "(json \<Rightarrow> jsnum option) \<Rightarrow> db \<Rightarrow> string \<Rightarrow> request list \<Rightarrow> bool" where
  "replaced conv d rid [] = False"
| "replaced conv d rid (q # qs) =
     ((redraws rid q \<and> accepted conv d q) \<or> replaced conv (snd (handle conv d q)) rid qs)"

text \<open>The room \<open>rid\<close>, if there is one, seats no user identifier twice.\<close>

definition distinct_seats :: "db \<Rightarrow> string \<Rightarrow> bool" where
  "distinct_seats d rid =
     (case rooms d rid of None \<Rightarrow> True | Some r \<Rightarrow> distinct (map seat_id (players r)))"

text \<open>The flag of the seat that the user \<open>i\<close> holds in the room \<open>rid\<close>.\<close>

definition seat_connected :: "db \<Rightarrow> string \<Rightarrow> string \<Rightarrow> bool option" where
  "seat_connected d rid i =
     (case rooms d rid of
        None \<Rightarrow> None
      | Some r \<Rightarrow> map_option connected (find (\<lambda>p. seat_id p = i) (players r)))"

text \<open>The room \<open>rid\<close> has a seat at position \<open>k\<close> whose flag is false.\<close>

definition disconnected :: "db \<Rightarrow> string \<Rightarrow> nat \<Rightarrow> bool" where
  "disconnected d rid k =
     (case rooms d rid of
        None \<Rightarrow> False
      | Some r \<Rightarrow> k < length (players r) \<and> \<not> connected (players r ! k))"

section \<open>Objects and references\<close>















section \<open>Example stores\<close>

text \<open>
  Three registered users with a session each, and rooms in the shapes the handlers
  produce. \<open>sample_conv\<close> gives \<open>Number\<close> on the two strings the examples send.
\<close>

definition sample_conv :: "json \<Rightarrow> jsnum option" where
  "sample_conv v =
     (if v = JStr ''3'' then Some (Fin 3) else if v = JStr ''abc'' then Some NaN else None)"

definition no_stats :: stats where
  "no_stats = \<lparr>wins = 0, losses = 0, vs = Map.empty\<rparr>"

definition alice :: user where
  "alice = \<lparr>user_id = ''ua'', username = ''alice'', salt = ''5a'', hash = ''c1'',
            user_stats = Some no_stats\<rparr>"

definition bob :: user where
  "bob = \<lparr>user_id = ''ub'', username = ''bob'', salt = ''5b'', hash = ''c2'',
          user_stats = Some no_stats\<rparr>"

definition carol :: user where
  "carol = \<lparr>user_id = ''uc'', username = ''carol'', salt = ''5c'', hash = ''c3'',
            user_stats = Some no_stats\<rparr>"

definition tokens :: "string \<rightharpoonup> string" where
  "tokens = [''ta'' \<mapsto> ''ua'', ''tb'' \<mapsto> ''ub'', ''tc'' \<mapsto> ''uc'']"

definition seat_of :: "user \<Rightarrow> seat" where
  "seat_of u = \<lparr>seat_id = user_id u, seat_username = username u, connected = True\<rparr>"

definition no_rooms :: db where
  "no_rooms = \<lparr>users = [alice, bob, carol], sessions = tokens, rooms = Map.empty, history = []\<rparr>"

text \<open>
  Two rooms hosted by alice with bob seated: \<open>table\<close> for two (full) and \<open>lounge\<close> for
  four. Both are open in \<open>lobby\<close>; in \<open>duel\<close> the table has been started.
\<close>

definition table :: room where
  "table = \<lparr>room_id = ''4f2a9c1e'', hostId = ''ua'', players = [seat_of alice, seat_of bob],
            maxPlayers = Fin 2, started = False, locked = False, state = Some JNull,
            revision = 1\<rparr>"

definition lounge :: room where
  "lounge = \<lparr>room_id = ''9d01b7a2'', hostId = ''ua'', players = [seat_of alice, seat_of bob],
             maxPlayers = Fin 4, started = False, locked = False, state = Some JNull,
             revision = 1\<rparr>"

definition lobby :: db where
  "lobby = no_rooms\<lparr>rooms := [''4f2a9c1e'' \<mapsto> table, ''9d01b7a2'' \<mapsto> lounge]\<rparr>"

definition duel :: db where
  "duel = no_rooms\<lparr>rooms := [''4f2a9c1e'' \<mapsto> table\<lparr>started := True, revision := 2\<rparr>]\<rparr>"

text \<open>
  An evening in \<open>lobby\<close>: carol looks at the lounge, is refused at the table, takes a
  seat in the lounge; bob reconnects; bob may not start, alice does; carol reports
  herself the winner; carol opens a room of her own; bob replays carol's report.
\<close>

definition evening :: "request list" where
  "evening =
     [Read (Some ''Bearer tc'') ''9d01b7a2'',
      Join (Some ''Bearer tc'') ''4f2a9c1e'',
      Join (Some ''Bearer tc'') ''9d01b7a2'',
      Join (Some ''Bearer tb'') ''9d01b7a2'',
      Start (Some ''Bearer tb'') ''9d01b7a2'' (Some (JObj [])),
      Start (Some ''Bearer ta'') ''9d01b7a2'' (Some (JObj [(''state'', JStr ''round 1'')])),
      State (Some ''Bearer tc'') ''9d01b7a2''
        (Some (JObj [(''state'', JStr ''over''), (''reportWinnerId'', JStr ''uc'')]))
        ''0c6e2f51-e1'' 1700000000,
      Create (Some ''Bearer tc'') (Some (JObj [(''maxPlayers'', JNum (Fin 3))])) ''77aa01bc-4d5e'',
      State (Some ''Bearer tb'') ''9d01b7a2''
        (Some (JObj [(''state'', JStr ''over''), (''reportWinnerId'', JStr ''uc'')]))
        ''0c6e2f51-e2'' 1700000001]"

text \<open>
  The first two requests of a registry without rooms: alice opens a table for two and
  bob takes the second seat.
\<close>

definition first_moves :: "request list" where
  "first_moves =
     [Create (Some ''Bearer ta'') (Some (JObj [(''maxPlayers'', JNum (Fin 2))])) ''4f2a9c1e-7b3d'',
      Join (Some ''Bearer tb'') ''4f2a9c1e'']"



text \<open>
  \<open>match3\<close>: the lounge with alice, bob and carol seated, started. \<open>odd_match\<close>: a
  started room of alice and connie, a user registered under the name \<open>constructor\<close>.
\<close>

definition match3 :: db where
  "match3 = no_rooms\<lparr>rooms :=
     [''9d01b7a2'' \<mapsto>
        lounge\<lparr>players := [seat_of alice, seat_of bob, seat_of carol],
               started := True, revision := 3\<rparr>]\<rparr>"

definition connie :: user where
  "connie = \<lparr>user_id = ''ud'', username = ''constructor'', salt = ''5d'', hash = ''c4'',
             user_stats = Some no_stats\<rparr>"

definition odd_match :: db where
  "odd_match =
     \<lparr>users = [alice, connie], sessions = [''ta'' \<mapsto> ''ua'', ''td'' \<mapsto> ''ud''],
      rooms = [''4f2a9c1e'' \<mapsto>
                 table\<lparr>players := [seat_of alice, seat_of connie], started := True,
                       revision := 2\<rparr>],
      history = []\<rparr>"

lemmas handler_defs =
  rooms_create_def rooms_join_def rooms_start_def rooms_state_def rooms_read_def
  authUser_def startsWith_def js_get_def Object_prototype_keys_def destructure_def
  js_or_def js_truthy_def sanitizeRoom_def Let_def

lemmas aggregate_defs =
  aggregate_def record_result_def bump_vs_def ensureStats_def

lemmas example_defs =
  sample_conv_def no_stats_def alice_def bob_def carol_def tokens_def seat_of_def
  no_rooms_def table_def lounge_def lobby_def duel_def evening_def
  match3_def connie_def odd_match_def

section \<open>Rejected requests\<close>

lemma rooms_create_failure: "rooms_create conv d a body uuid = (Inl e, d') \<Longrightarrow> d' = d"
  by (auto simp: rooms_create_def Let_def split: option.splits)

lemma rooms_join_failure: "rooms_join d a rid = (Inl e, d') \<Longrightarrow> d' = d"
  by (auto simp: rooms_join_def Let_def split: option.splits property.splits if_splits)

lemma rooms_start_failure: "rooms_start d a rid body = (Inl e, d') \<Longrightarrow> d' = d"
  by (auto simp: rooms_start_def Let_def split: option.splits property.splits if_splits)

lemma rooms_state_failure: "rooms_state d a rid body uuid now = (Inl e, d') \<Longrightarrow> d' = d"
  by (auto simp: rooms_state_def Let_def split: option.splits property.splits if_splits)

lemma rooms_read_failure: "rooms_read d a rid = (Inl e, d') \<Longrightarrow> d' = d"
  by (auto simp: rooms_read_def Let_def split: option.splits property.splits if_splits)

text \<open>
  C10. A room request (create, join, start, state update, read) that is answered with an
  error leaves the whole store as it was: users, sessions, rooms and history. This holds
  for the error responses 401, 404, 403 and 400 of the five handlers, and also when the
  handler throws while it reads the request (an unreadable body, a failing coercion of
  \<open>maxPlayers\<close>, a room identifier that names an inherited property).
\<close>

theorem failure_keeps_store: "handle conv d q = (Inl e, d') \<Longrightarrow> d' = d"
  by (cases q)
    (auto dest: rooms_create_failure rooms_join_failure rooms_start_failure
       rooms_state_failure rooms_read_failure)

text \<open>Carol asks to join the full room of \<open>lobby\<close>: refused, and the store is the same.\<close>

theorem failure_keeps_store_witness:
  "fst (handle sample_conv lobby (Join (Some ''Bearer tc'') ''4f2a9c1e''))
     = Inl (Fail 400 ''room full or started'')
   \<and> snd (handle sample_conv lobby (Join (Some ''Bearer tc'') ''4f2a9c1e'')) = lobby"
proof -
  have h: "handle sample_conv lobby (Join (Some ''Bearer tc'') ''4f2a9c1e'')
             = (Inl (Fail 400 ''room full or started''),
                snd (handle sample_conv lobby (Join (Some ''Bearer tc'') ''4f2a9c1e'')))"
    by (simp add: handler_defs example_defs)
  from failure_keeps_store [OF h] h show ?thesis by simp
qed

section \<open>Creating a room\<close>

lemma clamp_range:
  "n \<noteq> NaN \<Longrightarrow> jsnum_le (Fin 2) (Math_max (Fin 2) (Math_min (Fin 4) n))
     \<and> jsnum_le (Math_max (Fin 2) (Math_min (Fin 4) n)) (Fin 4)"
  by (cases n) (auto simp: Math_max_def Math_min_def)

lemma clamp_NaN: "Math_max (Fin 2) (Math_min (Fin 4) NaN) = NaN"
  by (simp add: Math_max_def Math_min_def)

text \<open>
  What \<open>create\<close> does for an authenticated caller: the host is the only seat, the room
  is not started, the revision is 0, and \<open>maxPlayers\<close> is the clamped number, which lies
  between 2 and 4 unless the number is \<open>NaN\<close>. An omitted, zero, negative or too large
  \<open>maxPlayers\<close> is clamped as intended.
\<close>

lemma create_outcome:
  assumes "authUser d a = Some u" and "destructure body = Some field"
    and "Number_js conv (js_or (field ''maxPlayers'') (JNum (Fin 4))) = Some n"
  shows "rooms_create conv d a body uuid =
           (Inr (RoomPayload (sanitizeRoom
                   \<lparr>room_id = take 8 uuid, hostId = user_id u,
                    players = [\<lparr>seat_id = user_id u, seat_username = username u,
                                connected = True\<rparr>],
                    maxPlayers = Math_max (Fin 2) (Math_min (Fin 4) n), started = False,
                    locked = False, state = Some JNull, revision = 0\<rparr> (user_id u))),
            d\<lparr>rooms := (rooms d)(take 8 uuid \<mapsto>
                   \<lparr>room_id = take 8 uuid, hostId = user_id u,
                    players = [\<lparr>seat_id = user_id u, seat_username = username u,
                                connected = True\<rparr>],
                    maxPlayers = Math_max (Fin 2) (Math_min (Fin 4) n), started = False,
                    locked = False, state = Some JNull, revision = 0\<rparr>)\<rparr>)
       \<and> (n \<noteq> NaN \<longrightarrow> jsnum_le (Fin 2) (Math_max (Fin 2) (Math_min (Fin 4) n))
                      \<and> jsnum_le (Math_max (Fin 2) (Math_min (Fin 4) n)) (Fin 4))
       \<and> (n = NaN \<longrightarrow> Math_max (Fin 2) (Math_min (Fin 4) n) = NaN)"
  using assms clamp_range [of n] by (simp add: rooms_create_def Let_def clamp_NaN)

lemma omitted_maxPlayers:
  "Number_js conv (js_or None (JNum (Fin 4))) = Some (Fin 4)
   \<and> Math_max (Fin 2) (Math_min (Fin 4) (Fin 4)) = Fin 4
   \<and> Math_max (Fin 2) (Math_min (Fin 4) (Fin (- 1))) = Fin 2
   \<and> Math_max (Fin 2) (Math_min (Fin 4) (Fin 9)) = Fin 4
   \<and> Number_js conv (js_or (Some (JNum (Fin 0))) (JNum (Fin 4))) = Some (Fin 4)"
  by (simp add: js_or_def Math_max_def Math_min_def)

text \<open>
  C8. The claim is that \<open>create\<close> yields a room with \<open>maxPlayers\<close> in [2,4] for every
  argument, non-numeric ones included, with the host as the only seat, \<open>started = false\<close>
  and \<open>revision = 0\<close>. The clamp \<open>Math.max(2, Math.min(4, Number(maxPlayers || 4)))\<close> lets
  \<open>NaN\<close> through: for the body \<open>{"maxPlayers": "abc"}\<close> the room is created with
  \<open>maxPlayers = NaN\<close>, which is neither at least 2 nor at most 4. The seat, \<open>started\<close> and
  \<open>revision\<close> are as claimed.
\<close>

theorem create_maxPlayers_NaN:
  "rooms_create sample_conv no_rooms (Some ''Bearer ta'')
       (Some (JObj [(''maxPlayers'', JStr ''abc'')])) ''4f2a9c1e-7b3d''
     = (Inr (RoomPayload
              \<lparr>view_id = ''4f2a9c1e'', view_hostId = ''ua'', view_players = [seat_of alice],
               view_started = False, view_locked = False, view_revision = 0,
               view_state = JNull, youAreHost = True\<rparr>),
        no_rooms\<lparr>rooms :=
          [''4f2a9c1e'' \<mapsto>
             \<lparr>room_id = ''4f2a9c1e'', hostId = ''ua'', players = [seat_of alice],
              maxPlayers = NaN, started = False, locked = False, state = Some JNull,
              revision = 0\<rparr>]\<rparr>)
   \<and> \<not> jsnum_le (Fin 2) NaN \<and> \<not> jsnum_le NaN (Fin 4)"
  by (simp add: handler_defs example_defs Math_max_def Math_min_def)

section \<open>Joining\<close>

lemma mark_connected_fresh:
  "i \<notin> seat_id ` set ps \<Longrightarrow>
   mark_connected i (ps @ [\<lparr>seat_id = i, seat_username = n, connected = True\<rparr>])
     = ps @ [\<lparr>seat_id = i, seat_username = n, connected = True\<rparr>]"
  by (induction ps) auto

lemma find_seat_None: "(find (\<lambda>p. seat_id p = i) ps = None) = (i \<notin> seat_id ` set ps)"
  by (auto simp: find_None_iff)

lemma js_get_Some: "m k = Some v \<Longrightarrow> js_get m k = Own v"
  by (simp add: js_get_def)

text \<open>
  C3, as amended. For every authenticated caller who is not yet seated in the room, and
  every finite \<open>maxPlayers\<close> (so for 2, 3 and 4): Join fails with
  \<open>400 room full or started\<close> if and only if the room is started or
  \<open>players.length >= maxPlayers\<close>, and then the store is unchanged; otherwise it appends a
  seat for the caller with \<open>connected = true\<close> and adds one to the revision.
\<close>

theorem join_unseated:
  assumes "authUser d a = Some u" and "rooms d rid = Some r"
    and "user_id u \<notin> seat_id ` set (players r)" and "maxPlayers r = Fin m"
  shows "(fst (rooms_join d a rid) = Inl (Fail 400 ''room full or started''))
           = (started r \<or> m \<le> of_nat (length (players r)))
       \<and> rooms_join d a rid =
           (if started r \<or> m \<le> of_nat (length (players r))
            then (Inl (Fail 400 ''room full or started''), d)
            else (Inr (RoomPayload (sanitizeRoom
                        (r\<lparr>players := players r @ [\<lparr>seat_id = user_id u, seat_username = username u, connected = True\<rparr>],
                           revision := revision r + 1\<rparr>) (user_id u))),
                  d\<lparr>rooms := (rooms d)(rid \<mapsto>
                        r\<lparr>players := players r @ [\<lparr>seat_id = user_id u, seat_username = username u, connected = True\<rparr>],
                          revision := revision r + 1\<rparr>)\<rparr>))"
proof -
  have f: "find (\<lambda>p. seat_id p = user_id u) (players r) = None"
    using assms(3) by (simp add: find_seat_None)
  show ?thesis
    using assms
    by (simp add: rooms_join_def js_get_Some f mark_connected_fresh Let_def)
qed

theorem join_unseated_witness:
  "authUser lobby (Some ''Bearer tc'') = Some carol
   \<and> rooms lobby ''9d01b7a2'' = Some lounge
   \<and> user_id carol \<notin> seat_id ` set (players lounge)
   \<and> maxPlayers lounge = Fin 4
   \<and> rooms_join lobby (Some ''Bearer tc'') ''9d01b7a2''
       = (Inr (RoomPayload (sanitizeRoom
                 (lounge\<lparr>players := [seat_of alice, seat_of bob, seat_of carol], revision := 2\<rparr>)
                 ''uc'')),
          lobby\<lparr>rooms := (rooms lobby)(''9d01b7a2'' \<mapsto>
                 lounge\<lparr>players := [seat_of alice, seat_of bob, seat_of carol], revision := 2\<rparr>)\<rparr>)"
proof -
  have h1: "authUser lobby (Some ''Bearer tc'') = Some carol"
    by (simp add: handler_defs example_defs)
  have h2: "rooms lobby ''9d01b7a2'' = Some lounge"
    by (simp add: example_defs)
  have h3: "user_id carol \<notin> seat_id ` set (players lounge)"
    by (simp add: example_defs)
  have h4: "maxPlayers lounge = Fin 4"
    by (simp add: example_defs)
  from join_unseated [OF h1 h2 h3 h4] h1 h2 h3 h4 show ?thesis
    by (simp add: example_defs)
qed

text \<open>
  C3 as stated speaks of every caller. A caller who is already seated is never refused:
  alice, seated in the started and full table of \<open>duel\<close>, joins and is answered with the
  room (revision 3).
\<close>

theorem join_seated_counterexample:
  "authUser duel (Some ''Bearer ta'') = Some alice
   \<and> rooms duel ''4f2a9c1e'' = Some (table\<lparr>started := True, revision := 2\<rparr>)
   \<and> maxPlayers table = Fin 2 \<and> length (players table) = 2
   \<and> fst (rooms_join duel (Some ''Bearer ta'') ''4f2a9c1e'')
       = Inr (RoomPayload (sanitizeRoom (table\<lparr>started := True, revision := 3\<rparr>) ''ua''))"
  by (simp add: handler_defs example_defs)

section \<open>Starting\<close>

text \<open>
  C4, as amended. For every existing room, every authenticated caller and every readable
  request body: Start answers \<open>403 host only\<close> when the caller is not the host,
  \<open>400 need 2-4 players\<close> when the host calls with fewer than 2 or more than 4 seats, and
  succeeds otherwise, so it succeeds if and only if the caller is the host and
  \<open>2 <= players.length <= 4\<close>. On success \<open>started\<close> is true, the revision is one more, and
  \<open>state\<close> is the supplied state when that is truthy and \<open>null\<close> when it is absent, null,
  false, zero or the empty string. Nothing depends on \<open>started\<close>: a started room is
  started again and its state overwritten.
\<close>

theorem start_outcome:
  assumes "authUser d a = Some u" and "rooms d rid = Some r"
    and "destructure body = Some field"
  shows "rooms_start d a rid body =
           (if hostId r \<noteq> user_id u then (Inl (Fail 403 ''host only''), d)
            else if length (players r) < 2 \<or> 4 < length (players r)
            then (Inl (Fail 400 ''need 2-4 players''), d)
            else (Inr (RoomPayload (sanitizeRoom
                        (r\<lparr>started := True,
                           state := Some (case field ''state'' of
                                            None \<Rightarrow> JNull
                                          | Some v \<Rightarrow> if truthy v then v else JNull),
                           revision := revision r + 1\<rparr>) (user_id u))),
                  d\<lparr>rooms := (rooms d)(rid \<mapsto>
                        r\<lparr>started := True,
                          state := Some (case field ''state'' of
                                           None \<Rightarrow> JNull
                                         | Some v \<Rightarrow> if truthy v then v else JNull),
                          revision := revision r + 1\<rparr>)\<rparr>))
       \<and> (\<not> isl (fst (rooms_start d a rid body)))
           = (hostId r = user_id u \<and> 2 \<le> length (players r) \<and> length (players r) \<le> 4)"
  using assms
  by (auto simp: rooms_start_def js_get_Some js_or_def Let_def)

theorem start_outcome_witness:
  "authUser duel (Some ''Bearer ta'') = Some alice
   \<and> rooms duel ''4f2a9c1e'' = Some (table\<lparr>started := True, revision := 2\<rparr>)
   \<and> destructure (Some (JObj [(''state'', JObj [(''turn'', JNum (Fin 1))])]))
       = Some (map_of [(''state'', JObj [(''turn'', JNum (Fin 1))])])
   \<and> rooms_start duel (Some ''Bearer ta'') ''4f2a9c1e''
         (Some (JObj [(''state'', JObj [(''turn'', JNum (Fin 1))])]))
       = (Inr (RoomPayload (sanitizeRoom
                 (table\<lparr>started := True, state := Some (JObj [(''turn'', JNum (Fin 1))]),
                    revision := 3\<rparr>) ''ua'')),
          duel\<lparr>rooms := (rooms duel)(''4f2a9c1e'' \<mapsto>
                 table\<lparr>started := True, state := Some (JObj [(''turn'', JNum (Fin 1))]),
                   revision := 3\<rparr>)\<rparr>)"
proof -
  have h1: "authUser duel (Some ''Bearer ta'') = Some alice"
    by (simp add: handler_defs example_defs)
  have h2: "rooms duel ''4f2a9c1e'' = Some (table\<lparr>started := True, revision := 2\<rparr>)"
    by (simp add: example_defs)
  have h3: "destructure (Some (JObj [(''state'', JObj [(''turn'', JNum (Fin 1))])]))
              = Some (map_of [(''state'', JObj [(''turn'', JNum (Fin 1))])])"
    by (simp add: destructure_def)
  from start_outcome [OF h1 h2 h3] h1 h2 h3 show ?thesis
    by (simp add: example_defs)
qed

text \<open>
  C4 as stated has the state replaced by the supplied state. The host starts the table
  of \<open>lobby\<close> with the state \<open>false\<close>: the room stores \<open>null\<close>.
\<close>

theorem start_falsy_state_counterexample:
  "authUser lobby (Some ''Bearer ta'') = Some alice
   \<and> hostId table = user_id alice \<and> length (players table) = 2
   \<and> rooms_start lobby (Some ''Bearer ta'') ''4f2a9c1e'' (Some (JObj [(''state'', JBool False)]))
       = (Inr (RoomPayload (sanitizeRoom
                 (table\<lparr>started := True, state := Some JNull, revision := 2\<rparr>) ''ua'')),
          lobby\<lparr>rooms := (rooms lobby)(''4f2a9c1e'' \<mapsto>
                 table\<lparr>started := True, state := Some JNull, revision := 2\<rparr>)\<rparr>)
   \<and> map_option state
         (rooms (snd (rooms_start lobby (Some ''Bearer ta'') ''4f2a9c1e''
                        (Some (JObj [(''state'', JBool False)])))) ''4f2a9c1e'')
       \<noteq> Some (Some (JBool False))"
  by (simp add: handler_defs example_defs)

section \<open>State updates and reads\<close>


lemma rooms_state_accepted:
  assumes "authUser d a = Some u" and "rooms d rid = Some r"
    and "list_ex (\<lambda>p. seat_id p = user_id u) (players r)"
    and "destructure body = Some field"
  shows "rooms_state d a rid body uuid now =
     (case (if js_truthy (field ''reportWinnerId'') \<and> started r
            then find (\<lambda>p. field ''reportWinnerId'' = Some (JStr (seat_id p))) (players r)
            else None) of
        None \<Rightarrow>
          (Inr (OkRevision (revision r + 1)),
           d\<lparr>rooms := (rooms d)(rid \<mapsto> r\<lparr>state := field ''state'', revision := revision r + 1\<rparr>)\<rparr>)
      | Some win \<Rightarrow>
          (Inr (OkRevision (revision r + 1)),
           d\<lparr>users := aggregate (players r) (seat_id win) (users d),
             history := history d @
               [\<lparr>entry_id = uuid, roomId = rid, entry_players = map seat_username (players r),
                 winner = seat_username win, entry_at = now\<rparr>],
             rooms := (rooms d)(rid \<mapsto>
               r\<lparr>state := field ''state'', revision := revision r + 1, started := False\<rparr>)\<rparr>))"
  using assms
  by (simp add: rooms_state_def js_get_Some Let_def split: option.splits)

lemma rooms_state_Inr:
  assumes "rooms_state d a rid body uuid now = (Inr p, d')"
  shows "\<exists>u r field. authUser d a = Some u \<and> rooms d rid = Some r
           \<and> list_ex (\<lambda>p. seat_id p = user_id u) (players r)
           \<and> destructure body = Some field"
  using assms
  by (auto simp: rooms_state_def js_get_def Let_def split: option.splits property.splits if_splits)

lemma rooms_read_accepted:
  assumes "authUser d a = Some u" and "rooms d rid = Some r"
  shows "rooms_read d a rid =
           (Inr (RoomPayload (sanitizeRoom (r\<lparr>players := mark_connected (user_id u) (players r)\<rparr>) (user_id u))),
            d\<lparr>rooms := (rooms d)(rid \<mapsto> r\<lparr>players := mark_connected (user_id u) (players r)\<rparr>)\<rparr>)"
  using assms by (simp add: rooms_read_def js_get_Some Let_def)





















section \<open>Winner reports\<close>

lemma update_first_map:
  "(\<And>x. g (f x) = g x) \<Longrightarrow> map g (update_first P f xs) = map g xs"
  by (induction xs) auto

lemma record_result_ids: "map user_id (record_result ps w p us) = map user_id us"
  by (simp add: record_result_def Let_def update_first_map split: option.splits)

lemma aggregate_ids: "map user_id (aggregate ps w us) = map user_id us"
proof -
  have "map user_id (fold (record_result ps w) qs us) = map user_id us" for qs
    by (induction qs arbitrary: us) (simp_all add: record_result_ids)
  then show ?thesis by (simp add: aggregate_def)
qed

lemma find_same_ids:
  "map user_id us' = map user_id us \<Longrightarrow> find (\<lambda>x. user_id x = i) us = Some u
     \<Longrightarrow> \<exists>u'. find (\<lambda>x. user_id x = i) us' = Some u' \<and> user_id u' = user_id u"
proof (induction us arbitrary: us')
  case Nil
  then show ?case by simp
next
  case (Cons x xs)
  then obtain y ys where us': "us' = y # ys" by (cases us') auto
  with Cons show ?case by (auto split: if_splits)
qed

lemma authUser_same_ids:
  assumes "sessions d' = sessions d" and "map user_id (users d') = map user_id (users d)"
    and "authUser d a = Some u"
  shows "\<exists>u'. authUser d' a = Some u' \<and> user_id u' = user_id u"
  using assms find_same_ids [OF assms(2)]
  by (auto simp: authUser_def Let_def split: option.splits property.splits if_splits)

text \<open>
  C6. First part: an accepted UpdateState against a room that is not started, whatever
  \<open>reportWinnerId\<close> it carries, replaces the state and adds one to the revision and
  changes nothing else: \<open>started\<close> stays false, the users and their statistics and the
  history are as before. Second part: an accepted report of a seated winner against a
  started room appends exactly one history entry, applies the statistics and opens the
  room; the same report sent again is accepted, and leaves history and users as they
  are, the room open, the revision one more.
\<close>

theorem report_on_open_room:
  "(authUser d a = Some u \<and> rooms d rid = Some r \<and> \<not> started r
      \<and> user_id u \<in> seat_id ` set (players r) \<and> destructure body = Some field
    \<longrightarrow> rooms_state d a rid body uuid now
          = (Inr (OkRevision (revision r + 1)),
             d\<lparr>rooms := (rooms d)(rid \<mapsto>
                  r\<lparr>state := field ''state'', revision := revision r + 1\<rparr>)\<rparr>))
   \<and> (rooms d rid = Some r \<and> started r \<and> destructure body = Some field
        \<and> field ''reportWinnerId'' = Some (JStr w) \<and> w \<noteq> []
        \<and> w \<in> seat_id ` set (players r)
        \<and> rooms_state d a rid body uuid now = (Inr p, d1)
      \<longrightarrow> (\<exists>e. history d1 = history d @ [e] \<and> entry_id e = uuid \<and> roomId e = rid)
          \<and> users d1 = aggregate (players r) w (users d)
          \<and> map_option started (rooms d1 rid) = Some False
          \<and> \<not> isl (fst (rooms_state d1 a rid body uuid' now'))
          \<and> history (snd (rooms_state d1 a rid body uuid' now')) = history d1
          \<and> users (snd (rooms_state d1 a rid body uuid' now')) = users d1
          \<and> map_option started (rooms (snd (rooms_state d1 a rid body uuid' now')) rid)
              = Some False
          \<and> map_option revision (rooms (snd (rooms_state d1 a rid body uuid' now')) rid)
              = Some (revision r + 2))"
proof (intro conjI impI)
  assume h: "authUser d a = Some u \<and> rooms d rid = Some r \<and> \<not> started r
      \<and> user_id u \<in> seat_id ` set (players r) \<and> destructure body = Some field"
  then have "list_ex (\<lambda>p. seat_id p = user_id u) (players r)"
    by (auto simp: list_ex_iff)
  with h show "rooms_state d a rid body uuid now
          = (Inr (OkRevision (revision r + 1)),
             d\<lparr>rooms := (rooms d)(rid \<mapsto>
                  r\<lparr>state := field ''state'', revision := revision r + 1\<rparr>)\<rparr>)"
    using rooms_state_accepted [of d a u rid r body field uuid now]
    by simp
next
  assume h: "rooms d rid = Some r \<and> started r \<and> destructure body = Some field
        \<and> field ''reportWinnerId'' = Some (JStr w) \<and> w \<noteq> []
        \<and> w \<in> seat_id ` set (players r)
        \<and> rooms_state d a rid body uuid now = (Inr p, d1)"
  then have acc: "rooms_state d a rid body uuid now = (Inr p, d1)" by simp
  from rooms_state_Inr [OF acc] h obtain u where
    u: "authUser d a = Some u" and s: "list_ex (\<lambda>p. seat_id p = user_id u) (players r)"
    by auto
  from h have "find (\<lambda>p. Some (JStr w) = Some (JStr (seat_id p))) (players r) \<noteq> None"
    by (auto simp: find_None_iff)
  then obtain win where
    win: "find (\<lambda>p. field ''reportWinnerId'' = Some (JStr (seat_id p))) (players r) = Some win"
    using h by auto
  from h have tr: "js_truthy (field ''reportWinnerId'')"
    by (simp add: js_truthy_def)
  define r2 where "r2 = r\<lparr>state := field ''state'', revision := revision r + 1, started := False\<rparr>"
  have d1: "d1 = d\<lparr>users := aggregate (players r) (seat_id win) (users d),
             history := history d @
               [\<lparr>entry_id = uuid, roomId = rid, entry_players = map seat_username (players r),
                 winner = seat_username win, entry_at = now\<rparr>],
             rooms := (rooms d)(rid \<mapsto> r2)\<rparr>"
    using rooms_state_accepted [OF u _ s, of rid body field uuid now] h win tr acc
    by (simp add: r2_def)
  have r2: "rooms d1 rid = Some r2" by (simp add: d1)
  from authUser_same_ids [of d1 d a u] u obtain u1 where
    u1: "authUser d1 a = Some u1" and id1: "user_id u1 = user_id u"
    by (auto simp: d1 aggregate_ids)
  have s2: "list_ex (\<lambda>p. seat_id p = user_id u1) (players r2)"
    using s id1 by (simp add: r2_def)
  have again: "rooms_state d1 a rid body uuid' now'
                 = (Inr (OkRevision (revision r2 + 1)),
                    d1\<lparr>rooms := (rooms d1)(rid \<mapsto>
                          r2\<lparr>state := field ''state'', revision := revision r2 + 1\<rparr>)\<rparr>)"
    using rooms_state_accepted [OF u1 r2 s2, of body field uuid' now'] h
    by (simp add: r2_def)
  show "\<exists>e. history d1 = history d @ [e] \<and> entry_id e = uuid \<and> roomId e = rid"
    by (simp add: d1)
  from win h have "seat_id win = w"
    by (auto simp: find_Some_iff)
  then show "users d1 = aggregate (players r) w (users d)" by (simp add: d1)
  show "map_option started (rooms d1 rid) = Some False" by (simp add: r2 r2_def)
  show "\<not> isl (fst (rooms_state d1 a rid body uuid' now'))" by (simp add: again)
  show "history (snd (rooms_state d1 a rid body uuid' now')) = history d1" by (simp add: again)
  show "users (snd (rooms_state d1 a rid body uuid' now')) = users d1" by (simp add: again)
  show "map_option started (rooms (snd (rooms_state d1 a rid body uuid' now')) rid) = Some False"
    by (simp add: again r2_def)
  show "map_option revision (rooms (snd (rooms_state d1 a rid body uuid' now')) rid)
              = Some (revision r + 2)"
    by (simp add: again r2_def)
qed

text \<open>
  Bob reports himself the winner at the open table of \<open>lobby\<close>: only state and revision
  change. He reports at the started table of \<open>duel\<close>: one entry; the replay adds none.
\<close>

theorem report_on_open_room_witness:
  "rooms_state lobby (Some ''Bearer tb'') ''4f2a9c1e''
       (Some (JObj [(''state'', JStr ''s1''), (''reportWinnerId'', JStr ''ub'')])) ''e1'' 7
     = (Inr (OkRevision 2),
        lobby\<lparr>rooms := (rooms lobby)(''4f2a9c1e'' \<mapsto>
                 table\<lparr>state := Some (JStr ''s1''), revision := 2\<rparr>)\<rparr>)
   \<and> fst (rooms_state duel (Some ''Bearer tb'') ''4f2a9c1e''
       (Some (JObj [(''state'', JStr ''s1''), (''reportWinnerId'', JStr ''ub'')])) ''e1'' 7)
     = Inr (OkRevision 3)
   \<and> length (history (snd (rooms_state duel (Some ''Bearer tb'') ''4f2a9c1e''
       (Some (JObj [(''state'', JStr ''s1''), (''reportWinnerId'', JStr ''ub'')])) ''e1'' 7))) = 1
   \<and> history (snd (rooms_state
         (snd (rooms_state duel (Some ''Bearer tb'') ''4f2a9c1e''
            (Some (JObj [(''state'', JStr ''s1''), (''reportWinnerId'', JStr ''ub'')])) ''e1'' 7))
         (Some ''Bearer tb'') ''4f2a9c1e''
         (Some (JObj [(''state'', JStr ''s1''), (''reportWinnerId'', JStr ''ub'')])) ''e2'' 8))
     = history (snd (rooms_state duel (Some ''Bearer tb'') ''4f2a9c1e''
         (Some (JObj [(''state'', JStr ''s1''), (''reportWinnerId'', JStr ''ub'')])) ''e1'' 7))"
proof -
  let ?a = "Some ''Bearer tb''"
  let ?fields = "[(''state'', JStr ''s1''), (''reportWinnerId'', JStr ''ub'')]"
  let ?body = "Some (JObj ?fields)"
  let ?d1 = "snd (rooms_state duel ?a ''4f2a9c1e'' ?body ''e1'' 7)"
  have b: "destructure ?body = Some (map_of ?fields)"
    by (simp add: destructure_def)
  have open_room: "authUser lobby ?a = Some bob \<and> rooms lobby ''4f2a9c1e'' = Some table
      \<and> \<not> started table \<and> user_id bob \<in> seat_id ` set (players table)
      \<and> destructure ?body = Some (map_of ?fields)"
    by (simp add: handler_defs example_defs)
  have started_room: "rooms duel ''4f2a9c1e'' = Some (table\<lparr>started := True, revision := 2\<rparr>)
      \<and> started (table\<lparr>started := True, revision := 2\<rparr>)
      \<and> destructure ?body = Some (map_of ?fields)
      \<and> map_of ?fields ''reportWinnerId'' = Some (JStr ''ub'') \<and> ''ub'' \<noteq> []
      \<and> ''ub'' \<in> seat_id ` set (players (table\<lparr>started := True, revision := 2\<rparr>))
      \<and> rooms_state duel ?a ''4f2a9c1e'' ?body ''e1'' 7 = (Inr (OkRevision 3), ?d1)"
    by (simp add: handler_defs example_defs)
  from report_on_open_room [THEN conjunct1, THEN mp, OF open_room, of "''e1''" 7]
  have A: "rooms_state lobby ?a ''4f2a9c1e'' ?body ''e1'' 7
     = (Inr (OkRevision 2),
        lobby\<lparr>rooms := (rooms lobby)(''4f2a9c1e'' \<mapsto>
                 table\<lparr>state := Some (JStr ''s1''), revision := 2\<rparr>)\<rparr>)"
    by (simp add: example_defs)
  from report_on_open_room [THEN conjunct2, THEN mp, OF started_room, of "''e2''" 8]
  have B: "length (history ?d1) = 1
      \<and> history (snd (rooms_state ?d1 ?a ''4f2a9c1e'' ?body ''e2'' 8)) = history ?d1"
    by (auto simp: example_defs)
  have C: "fst (rooms_state duel ?a ''4f2a9c1e'' ?body ''e1'' 7) = Inr (OkRevision 3)"
    by (simp add: handler_defs example_defs)
  show ?thesis
    by (intro conjI A C B [THEN conjunct1] B [THEN conjunct2])
qed

section \<open>The revision counter\<close>

lemma join_revision:
  "rooms d rid = Some r \<Longrightarrow>
   map_option revision (rooms (snd (rooms_join d a rid')) rid)
     = Some (revision r + (if rid' = rid \<and> \<not> isl (fst (rooms_join d a rid')) then 1 else 0))"
  by (auto simp: rooms_join_def js_get_def Let_def split: option.splits)

lemma start_revision:
  "rooms d rid = Some r \<Longrightarrow>
   map_option revision (rooms (snd (rooms_start d a rid' body)) rid)
     = Some (revision r + (if rid' = rid \<and> \<not> isl (fst (rooms_start d a rid' body)) then 1 else 0))"
  by (auto simp: rooms_start_def js_get_def Let_def split: option.splits)

lemma state_revision:
  "rooms d rid = Some r \<Longrightarrow>
   map_option revision (rooms (snd (rooms_state d a rid' body uuid now)) rid)
     = Some (revision r
         + (if rid' = rid \<and> \<not> isl (fst (rooms_state d a rid' body uuid now)) then 1 else 0))"
  by (auto simp: rooms_state_def js_get_def Let_def split: option.splits)

lemma read_revision:
  "rooms d rid = Some r \<Longrightarrow>
   map_option revision (rooms (snd (rooms_read d a rid')) rid) = Some (revision r)"
  by (auto simp: rooms_read_def js_get_def Let_def split: option.splits)

lemma create_revision_exact:
  "rooms d rid = Some r \<Longrightarrow>
   map_option revision (rooms (snd (rooms_create conv d a body uuid)) rid)
     = Some (if take 8 uuid = rid \<and> \<not> isl (fst (rooms_create conv d a body uuid)) then 0
             else revision r)"
  by (auto simp: rooms_create_def Let_def split: option.splits)

lemma handle_revision_exact:
  assumes "rooms d rid = Some r"
  shows "map_option revision (rooms (snd (handle conv d q)) rid)
           = Some (if redraws rid q \<and> accepted conv d q then 0
                   else revision r + (if mutates rid q \<and> accepted conv d q then 1 else 0))"
proof (cases q)
  case (Create a body uuid)
  with assms show ?thesis by (simp add: create_revision_exact accepted_def)
next
  case (Join a rid')
  with assms show ?thesis by (simp add: join_revision accepted_def)
next
  case (Start a rid' body)
  with assms show ?thesis by (simp add: start_revision accepted_def)
next
  case (State a rid' body uuid now)
  with assms show ?thesis by (simp add: state_revision accepted_def)
next
  case (Read a rid')
  with assms show ?thesis by (simp add: read_revision)
qed

lemma run_revision_exact:
  "rooms d rid = Some r \<Longrightarrow> \<not> replaced conv d rid qs \<Longrightarrow>
   map_option revision (rooms (run conv d qs) rid)
     = Some (revision r + int (accepted_mutations conv d rid qs))"
proof (induction qs arbitrary: d r)
  case Nil
  then show ?case by simp
next
  case (Cons q qs)
  from Cons.prems have nq: "\<not> (redraws rid q \<and> accepted conv d q)"
    and nqs: "\<not> replaced conv (snd (handle conv d q)) rid qs"
    by simp_all
  from handle_revision_exact [OF Cons.prems(1), of conv q] nq
  obtain r1 where r1: "rooms (snd (handle conv d q)) rid = Some r1"
    and rev1: "revision r1 = revision r + (if mutates rid q \<and> accepted conv d q then 1 else 0)"
    by auto
  from Cons.IH [OF r1 nqs] rev1 show ?case
    by (cases "mutates rid q \<and> accepted conv d q") auto
qed

text \<open>
  C1, as amended. Let \<open>rid\<close> name a room. A request adds exactly 1 to the room's revision
  when it is a join, start or state update of that room and is accepted; it leaves the
  revision as it is when it is refused, when it is a read, when it addresses another
  room, and when it is a create that draws another identifier; and an accepted create
  that draws the identifier \<open>rid\<close> puts a new room with revision 0 in the place of the
  room. Hence after any sequence of requests without such a create the revision is the
  initial one plus the number of accepted join, start and state requests for the room:
  it has not decreased and was not reset.
\<close>

theorem revision_counts_mutations:
  assumes "rooms d rid = Some r"
  shows "map_option revision (rooms (snd (handle conv d q)) rid)
           = Some (if redraws rid q \<and> accepted conv d q then 0
                   else revision r + (if mutates rid q \<and> accepted conv d q then 1 else 0))
       \<and> (\<not> replaced conv d rid qs \<longrightarrow>
            map_option revision (rooms (run conv d qs) rid)
              = Some (revision r + int (accepted_mutations conv d rid qs)))"
  using assms by (simp add: handle_revision_exact run_revision_exact)

text \<open>
  The evening in \<open>lobby\<close>: of the nine requests, five are accepted joins, starts and
  state updates of the lounge, whose revision goes from 1 to 6; carol's create draws
  another identifier; a read leaves the revision at 1.
\<close>

theorem revision_counts_mutations_witness:
  "rooms lobby ''9d01b7a2'' = Some lounge
   \<and> revision lounge = 1
   \<and> \<not> replaced sample_conv lobby ''9d01b7a2'' evening
   \<and> accepted_mutations sample_conv lobby ''9d01b7a2'' evening = 5
   \<and> map_option revision (rooms (run sample_conv lobby evening) ''9d01b7a2'') = Some 6
   \<and> map_option revision
        (rooms (snd (handle sample_conv lobby (Read (Some ''Bearer tc'') ''9d01b7a2'')))
           ''9d01b7a2'') = Some 1"
proof -
  have h: "rooms lobby ''9d01b7a2'' = Some lounge"
    by (simp add: example_defs)
  have v: "revision lounge = 1"
    by (simp add: example_defs)
  have n: "\<not> replaced sample_conv lobby ''9d01b7a2'' evening"
    by (simp add: accepted_def handler_defs example_defs aggregate_defs)
  have c: "accepted_mutations sample_conv lobby ''9d01b7a2'' evening = 5"
    by (simp add: accepted_def handler_defs example_defs aggregate_defs)
  from revision_counts_mutations
         [OF h, of sample_conv "Read (Some ''Bearer tc'') ''9d01b7a2''" evening] h v n c
  show ?thesis
    by simp
qed

text \<open>
  C1 as stated has the revision never reset. In a registry without rooms alice creates
  a room that is given the identifier \<open>9d01b7a2\<close> and bob joins it: revision 1. Carol
  creates a room and \<open>randomUUID()\<close> begins with the same eight digits: the create
  handler (server.mjs 89-90) stores her room under the identifier without a look at
  what is there, and the revision read under \<open>9d01b7a2\<close> is 0.
\<close>

theorem create_collision_counterexample:
  "map_option revision
     (rooms (run sample_conv no_rooms
               [Create (Some ''Bearer ta'') (Some (JObj [])) ''9d01b7a2-51c3'',
                Join (Some ''Bearer tb'') ''9d01b7a2'']) ''9d01b7a2'') = Some 1
   \<and> map_option revision
       (rooms (run sample_conv no_rooms
                 [Create (Some ''Bearer ta'') (Some (JObj [])) ''9d01b7a2-51c3'',
                  Join (Some ''Bearer tb'') ''9d01b7a2'',
                  Create (Some ''Bearer tc'') (Some (JObj [])) ''9d01b7a2-e07f''])
          ''9d01b7a2'') = Some 0"
  by (simp add: handler_defs example_defs Math_max_def Math_min_def)

section \<open>Seats\<close>

lemma mark_connected_ids: "map seat_id (mark_connected i ps) = map seat_id ps"
  by (induction ps) auto

lemma mark_connected_length: "length (mark_connected i ps) = length ps"
  by (induction ps) auto

lemma mark_connected_update:
  "i \<in> seat_id ` set ps \<Longrightarrow>
   mark_connected i ps =
     ps[length (takeWhile (\<lambda>p. seat_id p \<noteq> i) ps) :=
          (ps ! length (takeWhile (\<lambda>p. seat_id p \<noteq> i) ps))\<lparr>connected := True\<rparr>]"
  by (induction ps) auto

lemma find_seat_Some:
  "i \<in> seat_id ` set ps \<Longrightarrow> \<exists>s. find (\<lambda>p. seat_id p = i) ps = Some s"
  using find_seat_None [of i ps] by (cases "find (\<lambda>p. seat_id p = i) ps") auto

lemma authUser_rooms [simp]: "authUser (d\<lparr>rooms := m\<rparr>) a = authUser d a"
  by (simp add: authUser_def Let_def split: option.splits property.splits)

lemma rooms_join_seated:
  assumes "authUser d a = Some u" and "rooms d rid = Some r"
    and "user_id u \<in> seat_id ` set (players r)"
  shows "rooms_join d a rid =
           (Inr (RoomPayload (sanitizeRoom
                   (r\<lparr>players := mark_connected (user_id u) (players r),
                      revision := revision r + 1\<rparr>) (user_id u))),
            d\<lparr>rooms := (rooms d)(rid \<mapsto>
                   r\<lparr>players := mark_connected (user_id u) (players r),
                     revision := revision r + 1\<rparr>)\<rparr>)"
  using assms find_seat_Some [OF assms(3)]
  by (auto simp: rooms_join_def js_get_Some Let_def)

lemma create_distinct:
  "distinct_seats d rid \<Longrightarrow> distinct_seats (snd (rooms_create conv d a body uuid)) rid"
  by (auto simp: distinct_seats_def rooms_create_def Let_def split: option.splits)

lemma join_distinct:
  "distinct_seats d rid \<Longrightarrow> distinct_seats (snd (rooms_join d a rid')) rid"
  by (auto simp: distinct_seats_def rooms_join_def js_get_def Let_def mark_connected_ids
        find_seat_None split: option.splits if_splits)

lemma start_distinct:
  "distinct_seats d rid \<Longrightarrow> distinct_seats (snd (rooms_start d a rid' body)) rid"
  by (auto simp: distinct_seats_def rooms_start_def js_get_def Let_def
        split: option.splits if_splits)

lemma state_distinct:
  "distinct_seats d rid \<Longrightarrow> distinct_seats (snd (rooms_state d a rid' body uuid now)) rid"
  by (auto simp: distinct_seats_def rooms_state_def js_get_def Let_def
        split: option.splits if_splits)

lemma read_distinct:
  "distinct_seats d rid \<Longrightarrow> distinct_seats (snd (rooms_read d a rid')) rid"
  by (auto simp: distinct_seats_def rooms_read_def js_get_def Let_def mark_connected_ids
        split: option.splits if_splits)

lemma handle_distinct:
  "distinct_seats d rid \<Longrightarrow> distinct_seats (snd (handle conv d q)) rid"
  by (cases q)
    (simp_all add: create_distinct join_distinct start_distinct state_distinct read_distinct)

lemma run_distinct: "distinct_seats d rid \<Longrightarrow> distinct_seats (run conv d qs) rid"
  by (induction qs arbitrary: d) (simp_all add: handle_distinct)

text \<open>
  C2. First part: a room that seats no user identifier twice never comes to seat one
  twice, whatever requests are served; a room that a request creates seats the host
  alone. Second part: a Join by a user who is seated succeeds, keeps the players list at
  its length, and changes in it only the \<open>connected\<close> flag of that user's seat, at
  position \<open>k\<close>, which becomes true; the revision is one more. Third part: when a user
  who is not seated joins and joins again, both joins are accepted and the identifiers
  seated after the second are those seated before the first followed by the user's,
  once.
\<close>

theorem no_duplicate_seats:
  "(distinct_seats d rid \<longrightarrow> distinct_seats (run conv d qs) rid)
   \<and> (authUser d a = Some u \<and> rooms d rid = Some r
        \<and> user_id u \<in> seat_id ` set (players r)
        \<and> k = length (takeWhile (\<lambda>p. seat_id p \<noteq> user_id u) (players r))
      \<longrightarrow> rooms_join d a rid =
            (Inr (RoomPayload (sanitizeRoom
                    (r\<lparr>players := (players r)[k := (players r ! k)\<lparr>connected := True\<rparr>],
                       revision := revision r + 1\<rparr>) (user_id u))),
             d\<lparr>rooms := (rooms d)(rid \<mapsto>
                    r\<lparr>players := (players r)[k := (players r ! k)\<lparr>connected := True\<rparr>],
                      revision := revision r + 1\<rparr>)\<rparr>)
          \<and> map_option (length \<circ> players) (rooms (snd (rooms_join d a rid)) rid)
              = Some (length (players r)))
   \<and> (authUser d a = Some u \<and> rooms d rid = Some r
        \<and> user_id u \<notin> seat_id ` set (players r)
        \<and> rooms_join d a rid = (Inr p, d1)
      \<longrightarrow> \<not> isl (fst (rooms_join d1 a rid))
          \<and> map_option (map seat_id \<circ> players) (rooms d1 rid)
              = Some (map seat_id (players r) @ [user_id u])
          \<and> map_option (map seat_id \<circ> players) (rooms (snd (rooms_join d1 a rid)) rid)
              = Some (map seat_id (players r) @ [user_id u]))"
proof (intro conjI impI)
  show "distinct_seats d rid \<Longrightarrow> distinct_seats (run conv d qs) rid"
    by (rule run_distinct)
next
  assume h: "authUser d a = Some u \<and> rooms d rid = Some r
        \<and> user_id u \<in> seat_id ` set (players r)
        \<and> k = length (takeWhile (\<lambda>p. seat_id p \<noteq> user_id u) (players r))"
  then have j: "rooms_join d a rid =
           (Inr (RoomPayload (sanitizeRoom
                   (r\<lparr>players := mark_connected (user_id u) (players r),
                      revision := revision r + 1\<rparr>) (user_id u))),
            d\<lparr>rooms := (rooms d)(rid \<mapsto>
                   r\<lparr>players := mark_connected (user_id u) (players r),
                     revision := revision r + 1\<rparr>)\<rparr>)"
    by (simp add: rooms_join_seated)
  from h have m: "mark_connected (user_id u) (players r)
                    = (players r)[k := (players r ! k)\<lparr>connected := True\<rparr>]"
    by (simp add: mark_connected_update)
  from j m show "rooms_join d a rid =
            (Inr (RoomPayload (sanitizeRoom
                    (r\<lparr>players := (players r)[k := (players r ! k)\<lparr>connected := True\<rparr>],
                       revision := revision r + 1\<rparr>) (user_id u))),
             d\<lparr>rooms := (rooms d)(rid \<mapsto>
                    r\<lparr>players := (players r)[k := (players r ! k)\<lparr>connected := True\<rparr>],
                      revision := revision r + 1\<rparr>)\<rparr>)"
    by simp
  from j show "map_option (length \<circ> players) (rooms (snd (rooms_join d a rid)) rid)
              = Some (length (players r))"
    by (simp add: mark_connected_length)
next
  assume h: "authUser d a = Some u \<and> rooms d rid = Some r
        \<and> user_id u \<notin> seat_id ` set (players r)
        \<and> rooms_join d a rid = (Inr p, d1)"
  define r1 where "r1 = r\<lparr>players := players r @ [\<lparr>seat_id = user_id u,
                              seat_username = username u, connected = True\<rparr>],
                         revision := revision r + 1\<rparr>"
  from h have f: "find (\<lambda>p. seat_id p = user_id u) (players r) = None"
    by (simp add: find_seat_None)
  from h f have d1: "d1 = d\<lparr>rooms := (rooms d)(rid \<mapsto> r1)\<rparr>"
    by (auto simp: rooms_join_def js_get_Some Let_def mark_connected_fresh r1_def
          split: if_splits)
  have u1: "authUser d1 a = Some u" using h by (simp add: d1)
  have r1: "rooms d1 rid = Some r1" by (simp add: d1)
  have s1: "user_id u \<in> seat_id ` set (players r1)" by (simp add: r1_def)
  note j = rooms_join_seated [OF u1 r1 s1]
  show "\<not> isl (fst (rooms_join d1 a rid))" by (simp add: j)
  show "map_option (map seat_id \<circ> players) (rooms d1 rid)
              = Some (map seat_id (players r) @ [user_id u])"
    by (simp add: r1 r1_def)
  show "map_option (map seat_id \<circ> players) (rooms (snd (rooms_join d1 a rid)) rid)
              = Some (map seat_id (players r) @ [user_id u])"
    by (simp add: j mark_connected_ids r1_def)
qed

text \<open>
  The lounge keeps its seats distinct through the evening; bob, seated in it, joins and
  the two seats stay as they are; carol joins twice and is seated once.
\<close>

theorem no_duplicate_seats_witness:
  "distinct_seats lobby ''9d01b7a2''
   \<and> distinct_seats (run sample_conv lobby evening) ''9d01b7a2''
   \<and> rooms_join lobby (Some ''Bearer tb'') ''9d01b7a2''
       = (Inr (RoomPayload (sanitizeRoom (lounge\<lparr>revision := 2\<rparr>) ''ub'')),
          lobby\<lparr>rooms := (rooms lobby)(''9d01b7a2'' \<mapsto> lounge\<lparr>revision := 2\<rparr>)\<rparr>)
   \<and> map_option (map seat_id \<circ> players)
         (rooms (snd (rooms_join (snd (rooms_join lobby (Some ''Bearer tc'') ''9d01b7a2''))
                        (Some ''Bearer tc'') ''9d01b7a2'')) ''9d01b7a2'')
       = Some [''ua'', ''ub'', ''uc'']"
proof -
  let ?d1 = "snd (rooms_join lobby (Some ''Bearer tc'') ''9d01b7a2'')"
  have i: "distinct_seats lobby ''9d01b7a2''"
    by (simp add: distinct_seats_def example_defs)
  have seated: "authUser lobby (Some ''Bearer tb'') = Some bob
      \<and> rooms lobby ''9d01b7a2'' = Some lounge
      \<and> user_id bob \<in> seat_id ` set (players lounge)
      \<and> 1 = length (takeWhile (\<lambda>p. seat_id p \<noteq> user_id bob) (players lounge))"
    by (simp add: handler_defs example_defs)
  have unseated: "authUser lobby (Some ''Bearer tc'') = Some carol
      \<and> rooms lobby ''9d01b7a2'' = Some lounge
      \<and> user_id carol \<notin> seat_id ` set (players lounge)
      \<and> rooms_join lobby (Some ''Bearer tc'') ''9d01b7a2''
          = (Inr (RoomPayload (sanitizeRoom
                    (lounge\<lparr>players := [seat_of alice, seat_of bob, seat_of carol],
                       revision := 2\<rparr>) ''uc'')), ?d1)"
    by (simp add: handler_defs example_defs)
  from no_duplicate_seats [THEN conjunct1, THEN mp, OF i, of sample_conv evening]
  have A: "distinct_seats (run sample_conv lobby evening) ''9d01b7a2''" .
  from no_duplicate_seats [THEN conjunct2, THEN conjunct1, THEN mp, OF seated]
  have B: "rooms_join lobby (Some ''Bearer tb'') ''9d01b7a2''
       = (Inr (RoomPayload (sanitizeRoom (lounge\<lparr>revision := 2\<rparr>) ''ub'')),
          lobby\<lparr>rooms := (rooms lobby)(''9d01b7a2'' \<mapsto> lounge\<lparr>revision := 2\<rparr>)\<rparr>)"
    by (simp add: example_defs)
  from no_duplicate_seats [THEN conjunct2, THEN conjunct2, THEN mp, OF unseated]
  have C: "map_option (map seat_id \<circ> players)
         (rooms (snd (rooms_join ?d1 (Some ''Bearer tc'') ''9d01b7a2'')) ''9d01b7a2'')
       = Some [''ua'', ''ub'', ''uc'']"
    by (simp add: example_defs)
  show ?thesis
    by (intro conjI i A B C)
qed

section \<open>The connected flag\<close>

lemma mark_connected_keeps:
  "k < length ps \<Longrightarrow> \<not> connected (mark_connected i ps ! k) \<Longrightarrow> \<not> connected (ps ! k)"
proof (induction ps arbitrary: k)
  case Nil
  then show ?case by simp
next
  case (Cons p ps)
  then show ?case by (cases k) (auto split: if_splits)
qed

lemma find_mark_connected:
  "i \<in> seat_id ` set ps \<Longrightarrow>
   map_option connected (find (\<lambda>p. seat_id p = i) (mark_connected i ps)) = Some True"
  by (induction ps) auto

lemma mark_connected_absent: "i \<notin> seat_id ` set ps \<Longrightarrow> mark_connected i ps = ps"
  by (induction ps) auto

lemma find_fresh:
  "i \<notin> seat_id ` set ps \<Longrightarrow>
   find (\<lambda>p. seat_id p = i) (ps @ [\<lparr>seat_id = i, seat_username = n, connected = c\<rparr>])
     = Some \<lparr>seat_id = i, seat_username = n, connected = c\<rparr>"
  by (induction ps) auto

lemma join_sets_connected:
  assumes "rooms_join d a rid = (Inr p, d')" and "authUser d a = Some u"
  shows "seat_connected d' rid (user_id u) = Some True"
proof -
  from assms obtain r where r: "rooms d rid = Some r"
    by (auto simp: rooms_join_def js_get_def split: option.splits if_splits)
  show ?thesis
  proof (cases "user_id u \<in> seat_id ` set (players r)")
    case True
    from rooms_join_seated [OF assms(2) r True] assms(1) True show ?thesis
      by (auto simp: seat_connected_def find_mark_connected)
  next
    case False
    then have "find (\<lambda>p. seat_id p = user_id u) (players r) = None"
      by (simp add: find_seat_None)
    with assms r False show ?thesis
      by (auto simp: rooms_join_def js_get_Some Let_def mark_connected_fresh find_fresh
            seat_connected_def split: if_splits)
  qed
qed

lemma read_sets_connected:
  assumes "authUser d a = Some u" and "rooms d rid = Some r"
    and "user_id u \<in> seat_id ` set (players r)"
  shows "seat_connected (snd (rooms_read d a rid)) rid (user_id u) = Some True"
  using rooms_read_accepted [OF assms(1,2)] assms(3)
  by (simp add: seat_connected_def find_mark_connected)

lemma start_players:
  "map_option players (rooms (snd (rooms_start d a rid' body)) rid)
     = map_option players (rooms d rid)"
  by (auto simp: rooms_start_def js_get_def Let_def split: option.splits)

lemma state_players:
  "map_option players (rooms (snd (rooms_state d a rid' body uuid now)) rid)
     = map_option players (rooms d rid)"
  by (auto simp: rooms_state_def js_get_def Let_def split: option.splits)

lemma disconnected_players:
  "map_option players (rooms d' rid) = map_option players (rooms d rid) \<Longrightarrow>
   disconnected d' rid k = disconnected d rid k"
  by (auto simp: disconnected_def split: option.splits)

lemma create_disconnected:
  "disconnected (snd (rooms_create conv d a body uuid)) rid k \<Longrightarrow> disconnected d rid k"
  by (auto simp: disconnected_def rooms_create_def Let_def split: option.splits if_splits)

lemma join_disconnected:
  "disconnected (snd (rooms_join d a rid')) rid k \<Longrightarrow> disconnected d rid k"
proof (cases "\<exists>u r. authUser d a = Some u \<and> rooms d rid' = Some r \<and> rid' = rid")
  case False
  assume "disconnected (snd (rooms_join d a rid')) rid k"
  with False show ?thesis
    by (auto simp: disconnected_def rooms_join_def js_get_def Let_def
          split: option.splits if_splits)
next
  case True
  assume h: "disconnected (snd (rooms_join d a rid')) rid k"
  from True obtain u r where u: "authUser d a = Some u" and r: "rooms d rid = Some r"
    and [simp]: "rid' = rid" by auto
  show ?thesis
  proof (cases "user_id u \<in> seat_id ` set (players r)")
    case True
    from rooms_join_seated [OF u r True] h r show ?thesis
      by (auto simp: disconnected_def mark_connected_length dest: mark_connected_keeps)
  next
    case False
    then have f: "find (\<lambda>p. seat_id p = user_id u) (players r) = None"
      by (simp add: find_seat_None)
    from h u r f False show ?thesis
      by (auto simp: disconnected_def rooms_join_def js_get_Some Let_def mark_connected_fresh
            nth_append less_Suc_eq split: if_splits)
  qed
qed

lemma read_disconnected:
  "disconnected (snd (rooms_read d a rid')) rid k \<Longrightarrow> disconnected d rid k"
  by (auto simp: disconnected_def rooms_read_def js_get_def Let_def mark_connected_length
        split: option.splits if_splits dest: mark_connected_keeps)

lemma handle_disconnected:
  "disconnected (snd (handle conv d q)) rid k \<Longrightarrow> disconnected d rid k"
proof (cases q)
  case (Create a body uuid)
  assume "disconnected (snd (handle conv d q)) rid k"
  with Create show ?thesis by (simp add: create_disconnected)
next
  case (Join a rid')
  assume "disconnected (snd (handle conv d q)) rid k"
  with Join show ?thesis by (simp add: join_disconnected)
next
  case (Start a rid' body)
  assume "disconnected (snd (handle conv d q)) rid k"
  with Start show ?thesis by (simp add: disconnected_players [OF start_players])
next
  case (State a rid' body uuid now)
  assume "disconnected (snd (handle conv d q)) rid k"
  with State show ?thesis by (simp add: disconnected_players [OF state_players])
next
  case (Read a rid')
  assume "disconnected (snd (handle conv d q)) rid k"
  with Read show ?thesis by (simp add: read_disconnected)
qed

lemma run_disconnected: "disconnected (run conv d qs) rid k \<Longrightarrow> disconnected d rid k"
  by (induction qs arbitrary: d) (auto dest: handle_disconnected)

text \<open>
  In a registry that starts without rooms no room ever seats a user twice and no seat
  is ever found with \<open>connected = false\<close>.
\<close>

lemma fresh_registry:
  assumes "rooms d = Map.empty"
  shows "distinct_seats (run conv d qs) rid \<and> \<not> disconnected (run conv d qs) rid k"
proof -
  from assms have "distinct_seats d rid" and "\<not> disconnected d rid k"
    by (simp_all add: distinct_seats_def disconnected_def)
  then show ?thesis
    using run_distinct run_disconnected by blast
qed

lemma seat_connected_players:
  "map_option players (rooms d' rid) = map_option players (rooms d rid) \<Longrightarrow>
   seat_connected d' rid i = seat_connected d rid i"
  by (auto simp: seat_connected_def split: option.splits)

lemma all_connected_seat:
  assumes "\<forall>k. \<not> disconnected d rid k" and "rooms d rid = Some r"
    and "i \<in> seat_id ` set (players r)"
  shows "seat_connected d rid i = Some True"
proof -
  from find_seat_Some [OF assms(3)] obtain s where
    s: "find (\<lambda>p. seat_id p = i) (players r) = Some s" by auto
  then have "s \<in> set (players r)" by (auto simp: find_Some_iff)
  then obtain k where "k < length (players r)" and "players r ! k = s"
    by (auto simp: in_set_conv_nth)
  with assms(1,2) have "connected s" by (auto simp: disconnected_def)
  with s assms(2) show ?thesis by (simp add: seat_connected_def)
qed

text \<open>
  C9. An accepted Join leaves the caller's seat with \<open>connected = true\<close>. A Read by an
  authenticated caller who holds a seat is answered with the room and leaves the seat
  with \<open>connected = true\<close>. Start and state update do not write the flag; every seat is
  made with the flag true and the registry starts without rooms (\<open>defaultDb\<close>), so after
  a start or state update by the seat's user, whatever the requests served before, the
  flag of the seat is true. No request sets a flag to false: a seat that is found with
  \<open>connected = false\<close> after any sequence of requests was at its position, with that
  flag, before the sequence, and in a registry that started without rooms there is none.
\<close>

theorem connected_after_requests:
  "(rooms_join d a rid = (Inr p, d') \<and> authUser d a = Some u
      \<longrightarrow> seat_connected d' rid (user_id u) = Some True)
   \<and> (authUser d a = Some u \<and> rooms d rid = Some r
        \<and> user_id u \<in> seat_id ` set (players r)
      \<longrightarrow> \<not> isl (fst (rooms_read d a rid))
          \<and> seat_connected (snd (rooms_read d a rid)) rid (user_id u) = Some True)
   \<and> (rooms d0 = Map.empty \<and> d = run conv d0 qs \<and> authUser d a = Some u
        \<and> rooms d rid = Some r \<and> user_id u \<in> seat_id ` set (players r)
      \<longrightarrow> seat_connected (snd (rooms_start d a rid body)) rid (user_id u) = Some True
          \<and> seat_connected (snd (rooms_state d a rid body uuid now)) rid (user_id u)
              = Some True)
   \<and> (disconnected (run conv d qs) rid k \<longrightarrow> disconnected d rid k)
   \<and> (rooms d0 = Map.empty \<longrightarrow> \<not> disconnected (run conv d0 qs) rid k)"
proof (intro conjI impI)
  assume "rooms_join d a rid = (Inr p, d') \<and> authUser d a = Some u"
  then show "seat_connected d' rid (user_id u) = Some True"
    by (blast intro: join_sets_connected)
next
  assume h: "authUser d a = Some u \<and> rooms d rid = Some r
        \<and> user_id u \<in> seat_id ` set (players r)"
  then show "\<not> isl (fst (rooms_read d a rid))"
    by (simp add: rooms_read_accepted)
  from h show "seat_connected (snd (rooms_read d a rid)) rid (user_id u) = Some True"
    by (simp add: read_sets_connected)
next
  assume h: "rooms d0 = Map.empty \<and> d = run conv d0 qs \<and> authUser d a = Some u
        \<and> rooms d rid = Some r \<and> user_id u \<in> seat_id ` set (players r)"
  then have "\<forall>k. \<not> disconnected d rid k"
    using fresh_registry [of d0 conv qs rid] by simp
  with h have c: "seat_connected d rid (user_id u) = Some True"
    by (intro all_connected_seat) auto
  show "seat_connected (snd (rooms_start d a rid body)) rid (user_id u) = Some True"
    using c by (simp add: seat_connected_players [OF start_players])
  show "seat_connected (snd (rooms_state d a rid body uuid now)) rid (user_id u) = Some True"
    using c by (simp add: seat_connected_players [OF state_players])
next
  assume "disconnected (run conv d qs) rid k"
  then show "disconnected d rid k"
    by (rule run_disconnected)
next
  assume "rooms d0 = Map.empty"
  then show "\<not> disconnected (run conv d0 qs) rid k"
    using fresh_registry [of d0 conv qs rid k] by simp
qed

text \<open>
  Carol's join in \<open>lobby\<close> seats her connected; bob's read at the table leaves him
  connected. After alice has opened the table and bob has joined it, alice's start and
  bob's state update leave their seats connected; and after the evening that follows,
  bob's seat in the lounge is connected.
\<close>

theorem connected_after_requests_witness:
  "seat_connected (snd (rooms_join lobby (Some ''Bearer tc'') ''9d01b7a2'')) ''9d01b7a2'' ''uc''
     = Some True
   \<and> seat_connected (snd (rooms_read lobby (Some ''Bearer tb'') ''4f2a9c1e'')) ''4f2a9c1e'' ''ub''
       = Some True
   \<and> rooms (run sample_conv no_rooms first_moves) ''4f2a9c1e'' = Some table
   \<and> seat_connected
        (snd (rooms_start (run sample_conv no_rooms first_moves) (Some ''Bearer ta'') ''4f2a9c1e''
                (Some (JObj [])))) ''4f2a9c1e'' ''ua'' = Some True
   \<and> seat_connected
        (snd (rooms_state (run sample_conv no_rooms first_moves) (Some ''Bearer tb'') ''4f2a9c1e''
                (Some (JObj [(''state'', JStr ''s1'')])) ''e1'' 7)) ''4f2a9c1e'' ''ub''
       = Some True
   \<and> \<not> disconnected (run sample_conv no_rooms (first_moves @ evening)) ''9d01b7a2'' 1"
proof -
  let ?d' = "snd (rooms_join lobby (Some ''Bearer tc'') ''9d01b7a2'')"
  let ?d = "run sample_conv no_rooms first_moves"
  have j: "rooms_join lobby (Some ''Bearer tc'') ''9d01b7a2''
             = (Inr (RoomPayload (sanitizeRoom
                       (lounge\<lparr>players := [seat_of alice, seat_of bob, seat_of carol],
                          revision := 2\<rparr>) ''uc'')), ?d')
           \<and> authUser lobby (Some ''Bearer tc'') = Some carol"
    by (simp add: handler_defs example_defs)
  have s: "authUser lobby (Some ''Bearer tb'') = Some bob
           \<and> rooms lobby ''4f2a9c1e'' = Some table
           \<and> user_id bob \<in> seat_id ` set (players table)"
    by (simp add: handler_defs example_defs)
  have t: "rooms ?d ''4f2a9c1e'' = Some table"
    by (simp add: first_moves_def handler_defs example_defs Math_max_def Math_min_def)
  have e: "rooms no_rooms = Map.empty"
    by (simp add: example_defs)
  have ba: "rooms no_rooms = Map.empty \<and> ?d = run sample_conv no_rooms first_moves
           \<and> authUser ?d (Some ''Bearer ta'') = Some alice
           \<and> rooms ?d ''4f2a9c1e'' = Some table
           \<and> user_id alice \<in> seat_id ` set (players table)"
    using t by (simp add: first_moves_def handler_defs example_defs)
  have bb: "rooms no_rooms = Map.empty \<and> ?d = run sample_conv no_rooms first_moves
           \<and> authUser ?d (Some ''Bearer tb'') = Some bob
           \<and> rooms ?d ''4f2a9c1e'' = Some table
           \<and> user_id bob \<in> seat_id ` set (players table)"
    using t by (simp add: first_moves_def handler_defs example_defs)
  from connected_after_requests [THEN conjunct1, THEN mp, OF j]
  have A: "seat_connected ?d' ''9d01b7a2'' ''uc'' = Some True"
    by (simp add: example_defs)
  from connected_after_requests [THEN conjunct2, THEN conjunct1, THEN mp, OF s]
  have B: "seat_connected (snd (rooms_read lobby (Some ''Bearer tb'') ''4f2a9c1e''))
             ''4f2a9c1e'' ''ub'' = Some True"
    by (simp add: example_defs)
  from connected_after_requests
         [where body = "Some (JObj [])",
          THEN conjunct2, THEN conjunct2, THEN conjunct1, THEN mp, OF ba]
  have C: "seat_connected (snd (rooms_start ?d (Some ''Bearer ta'') ''4f2a9c1e''
                (Some (JObj [])))) ''4f2a9c1e'' ''ua'' = Some True"
    by (simp add: example_defs)
  from connected_after_requests
         [where body = "Some (JObj [(''state'', JStr ''s1'')])" and uuid = "''e1''" and now = 7,
          THEN conjunct2, THEN conjunct2, THEN conjunct1, THEN mp, OF bb]
  have D: "seat_connected (snd (rooms_state ?d (Some ''Bearer tb'') ''4f2a9c1e''
                (Some (JObj [(''state'', JStr ''s1'')])) ''e1'' 7)) ''4f2a9c1e'' ''ub''
             = Some True"
    by (simp add: example_defs)
  from connected_after_requests
         [THEN conjunct2, THEN conjunct2, THEN conjunct2, THEN conjunct2, THEN mp, OF e]
  have E: "\<not> disconnected (run sample_conv no_rooms (first_moves @ evening)) ''9d01b7a2'' 1" .
  show ?thesis
    by (intro conjI A B t C D E)
qed

section \<open>The statistics of a winner report\<close>

lemma find_update_first_same:
  "(\<And>x. P x \<Longrightarrow> P (f x)) \<Longrightarrow> find P (update_first P f xs) = map_option f (find P xs)"
  by (induction xs) auto

lemma find_update_first_other:
  "(\<And>x. Q (f x) = Q x) \<Longrightarrow> (\<And>x. P x \<Longrightarrow> \<not> Q x) \<Longrightarrow>
   find Q (update_first P f xs) = find Q xs"
  by (induction xs) auto

lemma record_result_other:
  assumes "i \<noteq> seat_id p"
  shows "find (\<lambda>x. user_id x = i) (record_result ps w p us) = find (\<lambda>x. user_id x = i) us"
proof (cases "find (\<lambda>x. user_id x = seat_id p) us")
  case None
  then show ?thesis by (simp add: record_result_def)
next
  case (Some u)
  have "find (\<lambda>x. user_id x = i) (update_first (\<lambda>x. user_id x = seat_id p) f us)
          = find (\<lambda>x. user_id x = i) us"
    if "\<And>x. user_id (f x) = user_id x" for f
    using that assms by (intro find_update_first_other) auto
  then show ?thesis using Some by (simp add: record_result_def Let_def)
qed

lemma record_result_same:
  "find (\<lambda>x. user_id x = seat_id p) us = Some u \<Longrightarrow>
   find (\<lambda>x. user_id x = seat_id p) (record_result ps w p us)
     = Some (u\<lparr>user_stats := Some
         ((if seat_id p = w then (ensureStats u)\<lparr>wins := wins (ensureStats u) + 1\<rparr>
           else (ensureStats u)\<lparr>losses := losses (ensureStats u) + 1\<rparr>)
          \<lparr>vs := fold (\<lambda>op. bump_vs (seat_id p = w) (seat_username op))
                   (filter (\<lambda>op. seat_id op \<noteq> seat_id p) ps) (vs (ensureStats u))\<rparr>)\<rparr>)"
  by (simp add: record_result_def Let_def find_update_first_same)

lemma fold_record_result_unseated:
  "i \<notin> seat_id ` set qs \<Longrightarrow>
   find (\<lambda>x. user_id x = i) (fold (record_result ps w) qs us) = find (\<lambda>x. user_id x = i) us"
  by (induction qs arbitrary: us) (auto simp: record_result_other)

lemma fold_record_result_seated:
  assumes "distinct (map seat_id qs)" and "p \<in> set qs"
    and "find (\<lambda>x. user_id x = seat_id p) us = Some u"
  shows "find (\<lambda>x. user_id x = seat_id p) (fold (record_result ps w) qs us)
     = Some (u\<lparr>user_stats := Some
         ((if seat_id p = w then (ensureStats u)\<lparr>wins := wins (ensureStats u) + 1\<rparr>
           else (ensureStats u)\<lparr>losses := losses (ensureStats u) + 1\<rparr>)
          \<lparr>vs := fold (\<lambda>op. bump_vs (seat_id p = w) (seat_username op))
                   (filter (\<lambda>op. seat_id op \<noteq> seat_id p) ps) (vs (ensureStats u))\<rparr>)\<rparr>)"
  using assms
proof (induction qs arbitrary: us)
  case Nil
  then show ?case by simp
next
  case (Cons q qs)
  show ?case
  proof (cases "seat_id q = seat_id p")
    case True
    with Cons.prems(1) have "seat_id p \<notin> seat_id ` set qs" by auto
    then show ?thesis
      using record_result_same [of q us u ps w] Cons.prems(3) True
      by (simp add: fold_record_result_unseated)
  next
    case False
    with Cons.prems have "p \<in> set qs" and "distinct (map seat_id qs)" by auto
    moreover have "find (\<lambda>x. user_id x = seat_id p) (record_result ps w q us) = Some u"
      using False Cons.prems(3) by (simp add: record_result_other)
    ultimately show ?thesis using Cons.IH by simp
  qed
qed

lemma bump_vs_other: "name \<noteq> n \<Longrightarrow> bump_vs won n m name = m name"
  by (simp add: bump_vs_def js_get_def Let_def split: option.splits)

lemma fold_bump_vs_absent:
  "name \<notin> seat_username ` set ops \<Longrightarrow>
   fold (\<lambda>op. bump_vs won (seat_username op)) ops m name = m name"
  by (induction ops arbitrary: m) (auto simp: bump_vs_other)

lemma bump_vs_tally:
  assumes "name \<notin> set Object_prototype_keys"
  shows "(case bump_vs won n m name of None \<Rightarrow> 0 | Some e \<Rightarrow> vs_wins e)
           = (case m name of None \<Rightarrow> 0 | Some e \<Rightarrow> vs_wins e)
             + (if n = name \<and> won then 1 else 0)"
    and "(case bump_vs won n m name of None \<Rightarrow> 0 | Some e \<Rightarrow> vs_losses e)
           = (case m name of None \<Rightarrow> 0 | Some e \<Rightarrow> vs_losses e)
             + (if n = name \<and> \<not> won then 1 else 0)"
    and "n = name \<or> m name \<noteq> None \<Longrightarrow> bump_vs won n m name \<noteq> None"
  using assms
  by (auto simp: bump_vs_def js_get_def Let_def split: option.splits)

lemma fold_bump_vs_tally:
  assumes "name \<notin> set Object_prototype_keys"
  shows "(case fold (\<lambda>op. bump_vs won (seat_username op)) ops m name of
            None \<Rightarrow> 0 | Some e \<Rightarrow> vs_wins e)
           = (case m name of None \<Rightarrow> 0 | Some e \<Rightarrow> vs_wins e)
             + (if won then int (length (filter (\<lambda>op. seat_username op = name) ops)) else 0)"
    and "(case fold (\<lambda>op. bump_vs won (seat_username op)) ops m name of
            None \<Rightarrow> 0 | Some e \<Rightarrow> vs_losses e)
           = (case m name of None \<Rightarrow> 0 | Some e \<Rightarrow> vs_losses e)
             + (if won then 0 else int (length (filter (\<lambda>op. seat_username op = name) ops)))"
proof (induction ops arbitrary: m)
  case Nil
  {
    case 1
    show ?case by simp
  next
    case 2
    show ?case by simp
  }
next
  case (Cons op ops)
  {
    case 1
    show ?case
      using Cons.IH(1) [of "bump_vs won (seat_username op) m"]
        bump_vs_tally(1) [OF assms, of won "seat_username op" m]
      by simp
  next
    case 2
    show ?case
      using Cons.IH(2) [of "bump_vs won (seat_username op) m"]
        bump_vs_tally(2) [OF assms, of won "seat_username op" m]
      by simp
  }
qed

lemma fold_bump_vs_defined:
  assumes "name \<notin> set Object_prototype_keys"
  shows "name \<in> seat_username ` set ops \<or> m name \<noteq> None \<Longrightarrow>
         fold (\<lambda>op. bump_vs won (seat_username op)) ops m name \<noteq> None"
proof (induction ops arbitrary: m)
  case Nil
  then show ?case by simp
next
  case (Cons op ops)
  show ?case
  proof (cases "seat_username op = name \<or> m name \<noteq> None")
    case True
    then have "bump_vs won (seat_username op) m name \<noteq> None"
      by (rule bump_vs_tally(3) [OF assms])
    then show ?thesis using Cons.IH by simp
  next
    case False
    with Cons.prems have "name \<in> seat_username ` set ops" by auto
    then show ?thesis using Cons.IH by simp
  qed
qed

text \<open>
  What the aggregator does for a seated player \<open>p\<close> with a user record, in a room
  whose seats have distinct identifiers: \<open>wins\<close> or \<open>losses\<close> is one more, and for every
  other seated player \<open>op\<close> whose name is not an inherited property the same side of
  \<open>vs[op.username]\<close> has grown by the number of other seats that carry this name.
\<close>

lemma aggregate_outcome:
  assumes "distinct (map seat_id ps)" and "p \<in> set ps"
    and "find (\<lambda>x. user_id x = seat_id p) us = Some u"
  shows "\<exists>st. map_option user_stats (find (\<lambda>x. user_id x = seat_id p) (aggregate ps w us))
               = Some (Some st)
     \<and> wins st = wins (ensureStats u) + (if seat_id p = w then 1 else 0)
     \<and> losses st = losses (ensureStats u) + (if seat_id p = w then 0 else 1)
     \<and> (\<forall>op \<in> set ps.
           seat_id op \<noteq> seat_id p \<and> seat_username op \<notin> set Object_prototype_keys \<longrightarrow>
           (\<exists>e. vs st (seat_username op) = Some e
              \<and> vs_wins e =
                  (case vs (ensureStats u) (seat_username op) of
                     None \<Rightarrow> 0 | Some e0 \<Rightarrow> vs_wins e0)
                  + (if seat_id p = w
                     then int (length (filter (\<lambda>q. seat_username q = seat_username op)
                                 (filter (\<lambda>q. seat_id q \<noteq> seat_id p) ps)))
                     else 0)
              \<and> vs_losses e =
                  (case vs (ensureStats u) (seat_username op) of
                     None \<Rightarrow> 0 | Some e0 \<Rightarrow> vs_losses e0)
                  + (if seat_id p = w then 0
                     else int (length (filter (\<lambda>q. seat_username q = seat_username op)
                                 (filter (\<lambda>q. seat_id q \<noteq> seat_id p) ps))))))"
proof -
  let ?others = "filter (\<lambda>q. seat_id q \<noteq> seat_id p) ps"
  let ?old = "ensureStats u"
  let ?tab = "fold (\<lambda>op. bump_vs (seat_id p = w) (seat_username op)) ?others (vs ?old)"
  let ?new = "(if seat_id p = w then ?old\<lparr>wins := wins ?old + 1\<rparr>
              else ?old\<lparr>losses := losses ?old + 1\<rparr>)\<lparr>vs := ?tab\<rparr>"
  have f: "find (\<lambda>x. user_id x = seat_id p) (aggregate ps w us)
             = Some (u\<lparr>user_stats := Some ?new\<rparr>)"
    unfolding aggregate_def by (rule fold_record_result_seated [OF assms])
  have v: "\<exists>e. ?tab (seat_username op) = Some e
              \<and> vs_wins e =
                  (case vs ?old (seat_username op) of None \<Rightarrow> 0 | Some e0 \<Rightarrow> vs_wins e0)
                  + (if seat_id p = w
                     then int (length (filter (\<lambda>q. seat_username q = seat_username op) ?others))
                     else 0)
              \<and> vs_losses e =
                  (case vs ?old (seat_username op) of None \<Rightarrow> 0 | Some e0 \<Rightarrow> vs_losses e0)
                  + (if seat_id p = w then 0
                     else int (length (filter (\<lambda>q. seat_username q = seat_username op) ?others)))"
    if op: "op \<in> set ps" "seat_id op \<noteq> seat_id p"
      and k: "seat_username op \<notin> set Object_prototype_keys" for op
  proof -
    from op have "seat_username op \<in> seat_username ` set ?others" by auto
    then have "?tab (seat_username op) \<noteq> None"
      by (intro fold_bump_vs_defined [OF k]) simp
    then obtain e where e: "?tab (seat_username op) = Some e" by auto
    from fold_bump_vs_tally [OF k, where won = "seat_id p = w" and ops = ?others
                               and m = "vs (ensureStats u)"] e
    show ?thesis by simp
  qed
  show ?thesis
  proof (intro exI [of _ ?new] conjI ballI impI)
    show "map_option user_stats (find (\<lambda>x. user_id x = seat_id p) (aggregate ps w us))
            = Some (Some ?new)"
      by (simp add: f)
    show "wins ?new = wins ?old + (if seat_id p = w then 1 else 0)" by simp
    show "losses ?new = losses ?old + (if seat_id p = w then 0 else 1)" by simp
  next
    fix op
    assume "op \<in> set ps"
      and "seat_id op \<noteq> seat_id p \<and> seat_username op \<notin> set Object_prototype_keys"
    then show "\<exists>e. vs ?new (seat_username op) = Some e
              \<and> vs_wins e =
                  (case vs ?old (seat_username op) of None \<Rightarrow> 0 | Some e0 \<Rightarrow> vs_wins e0)
                  + (if seat_id p = w
                     then int (length (filter (\<lambda>q. seat_username q = seat_username op) ?others))
                     else 0)
              \<and> vs_losses e =
                  (case vs ?old (seat_username op) of None \<Rightarrow> 0 | Some e0 \<Rightarrow> vs_losses e0)
                  + (if seat_id p = w then 0
                     else int (length (filter (\<lambda>q. seat_username q = seat_username op) ?others)))"
      using v [of op] by simp
  qed
qed

text \<open>
  The example of the specification: alice, bob and carol are seated and alice is
  reported the winner. Every count is as listed there (and bob and carol each also
  record a loss against the other), and the room is open again.
\<close>

lemma winner_of_three:
  "fst (rooms_state match3 (Some ''Bearer tb'') ''9d01b7a2''
          (Some (JObj [(''state'', JStr ''over''), (''reportWinnerId'', JStr ''ua'')])) ''e1'' 7)
     = Inr (OkRevision 4)
   \<and> map (\<lambda>u. (username u,
               map_option (\<lambda>s. (wins s, losses s, vs s ''alice'', vs s ''bob'', vs s ''carol''))
                 (user_stats u)))
        (users (snd (rooms_state match3 (Some ''Bearer tb'') ''9d01b7a2''
           (Some (JObj [(''state'', JStr ''over''), (''reportWinnerId'', JStr ''ua'')]))
           ''e1'' 7)))
     = [(''alice'', Some (1, 0, None, Some \<lparr>vs_wins = 1, vs_losses = 0\<rparr>,
                          Some \<lparr>vs_wins = 1, vs_losses = 0\<rparr>)),
        (''bob'', Some (0, 1, Some \<lparr>vs_wins = 0, vs_losses = 1\<rparr>, None,
                        Some \<lparr>vs_wins = 0, vs_losses = 1\<rparr>)),
        (''carol'', Some (0, 1, Some \<lparr>vs_wins = 0, vs_losses = 1\<rparr>,
                          Some \<lparr>vs_wins = 0, vs_losses = 1\<rparr>, None))]
   \<and> map_option started
        (rooms (snd (rooms_state match3 (Some ''Bearer tb'') ''9d01b7a2''
           (Some (JObj [(''state'', JStr ''over''), (''reportWinnerId'', JStr ''ua'')]))
           ''e1'' 7)) ''9d01b7a2'') = Some False"
  by (simp add: handler_defs example_defs aggregate_defs)

text \<open>
  C5. The claim is that for every other seated player \<open>op\<close> the entry
  \<open>vs[op.username]\<close> is counted up. \<open>vs\<close> is a plain object, and
  \<open>stats.vs[op.username] ||= {wins: 0, losses: 0}\<close> creates the entry only when the read
  of \<open>vs[op.username]\<close> is falsy. For an opponent whose name is a property that every
  object inherits the read is truthy, no entry is made and the increment is lost. Alice
  wins against connie, whose username is \<open>constructor\<close>: alice's \<open>wins\<close> is 1 and her
  \<open>vs\<close> has no entry for \<open>constructor\<close>, where the claim has \<open>wins = 1\<close>; connie's
  record against alice is as claimed.
\<close>

theorem vs_record_lost:
  "fst (rooms_state odd_match (Some ''Bearer ta'') ''4f2a9c1e''
          (Some (JObj [(''state'', JStr ''over''), (''reportWinnerId'', JStr ''ua'')])) ''e1'' 7)
     = Inr (OkRevision 3)
   \<and> map (\<lambda>u. (username u,
               map_option (\<lambda>s. (wins s, losses s, vs s ''alice'', vs s ''constructor''))
                 (user_stats u)))
        (users (snd (rooms_state odd_match (Some ''Bearer ta'') ''4f2a9c1e''
           (Some (JObj [(''state'', JStr ''over''), (''reportWinnerId'', JStr ''ua'')]))
           ''e1'' 7)))
     = [(''alice'', Some (1, 0, None, None)),
        (''constructor'', Some (0, 1, Some \<lparr>vs_wins = 0, vs_losses = 1\<rparr>, None))]"
  by (simp add: handler_defs example_defs aggregate_defs)

section \<open>The scenario of the specification\<close>

text \<open>
  A host creates a room for two (one seat, not started, revision 0); a second player
  joins (two seats, revision 1); the host starts (started, revision 2); the second
  player reports himself the winner: one win for him, one loss for the host, the room
  open again, revision 3, one history entry.
\<close>

lemma scenario_of_two:
  "rooms (run sample_conv no_rooms
            [Create (Some ''Bearer ta'') (Some (JObj [(''maxPlayers'', JNum (Fin 2))]))
               ''4f2a9c1e-7b3d'']) ''4f2a9c1e''
     = Some \<lparr>room_id = ''4f2a9c1e'', hostId = ''ua'', players = [seat_of alice],
             maxPlayers = Fin 2, started = False, locked = False, state = Some JNull,
             revision = 0\<rparr>
   \<and> rooms (run sample_conv no_rooms
            [Create (Some ''Bearer ta'') (Some (JObj [(''maxPlayers'', JNum (Fin 2))]))
               ''4f2a9c1e-7b3d'',
             Join (Some ''Bearer tb'') ''4f2a9c1e'']) ''4f2a9c1e''
     = Some \<lparr>room_id = ''4f2a9c1e'', hostId = ''ua'',
             players = [seat_of alice, seat_of bob],
             maxPlayers = Fin 2, started = False, locked = False, state = Some JNull,
             revision = 1\<rparr>
   \<and> rooms (run sample_conv no_rooms
            [Create (Some ''Bearer ta'') (Some (JObj [(''maxPlayers'', JNum (Fin 2))]))
               ''4f2a9c1e-7b3d'',
             Join (Some ''Bearer tb'') ''4f2a9c1e'',
             Start (Some ''Bearer ta'') ''4f2a9c1e'' (Some (JObj []))]) ''4f2a9c1e''
     = Some \<lparr>room_id = ''4f2a9c1e'', hostId = ''ua'',
             players = [seat_of alice, seat_of bob],
             maxPlayers = Fin 2, started = True, locked = False, state = Some JNull,
             revision = 2\<rparr>
   \<and> rooms (run sample_conv no_rooms
            [Create (Some ''Bearer ta'') (Some (JObj [(''maxPlayers'', JNum (Fin 2))]))
               ''4f2a9c1e-7b3d'',
             Join (Some ''Bearer tb'') ''4f2a9c1e'',
             Start (Some ''Bearer ta'') ''4f2a9c1e'' (Some (JObj [])),
             State (Some ''Bearer tb'') ''4f2a9c1e''
               (Some (JObj [(''state'', JStr ''over''), (''reportWinnerId'', JStr ''ub'')]))
               ''0c6e2f51-e1'' 1700000000]) ''4f2a9c1e''
     = Some \<lparr>room_id = ''4f2a9c1e'', hostId = ''ua'',
             players = [seat_of alice, seat_of bob],
             maxPlayers = Fin 2, started = False, locked = False,
             state = Some (JStr ''over''), revision = 3\<rparr>
   \<and> map (\<lambda>u. (username u, map_option (\<lambda>s. (wins s, losses s)) (user_stats u)))
        (users (run sample_conv no_rooms
            [Create (Some ''Bearer ta'') (Some (JObj [(''maxPlayers'', JNum (Fin 2))]))
               ''4f2a9c1e-7b3d'',
             Join (Some ''Bearer tb'') ''4f2a9c1e'',
             Start (Some ''Bearer ta'') ''4f2a9c1e'' (Some (JObj [])),
             State (Some ''Bearer tb'') ''4f2a9c1e''
               (Some (JObj [(''state'', JStr ''over''), (''reportWinnerId'', JStr ''ub'')]))
               ''0c6e2f51-e1'' 1700000000]))
     = [(''alice'', Some (0, 1)), (''bob'', Some (1, 0)), (''carol'', Some (0, 0))]
   \<and> length (history (run sample_conv no_rooms
            [Create (Some ''Bearer ta'') (Some (JObj [(''maxPlayers'', JNum (Fin 2))]))
               ''4f2a9c1e-7b3d'',
             Join (Some ''Bearer tb'') ''4f2a9c1e'',
             Start (Some ''Bearer ta'') ''4f2a9c1e'' (Some (JObj [])),
             State (Some ''Bearer tb'') ''4f2a9c1e''
               (Some (JObj [(''state'', JStr ''over''), (''reportWinnerId'', JStr ''ub'')]))
               ''0c6e2f51-e1'' 1700000000])) = 1"
  by (simp add: handler_defs example_defs aggregate_defs Math_max_def Math_min_def)

section \<open>The example stores as runs\<close>

text \<open>
  The stores of the examples are built by the handlers: each is the registry after a
  run of requests from a registry without rooms.
\<close>

lemma lobby_built:
  "run sample_conv no_rooms
     [Create (Some ''Bearer ta'') (Some (JObj [(''maxPlayers'', JNum (Fin 2))])) ''4f2a9c1e-7b3d'',
      Join (Some ''Bearer tb'') ''4f2a9c1e'',
      Create (Some ''Bearer ta'') (Some (JObj [])) ''9d01b7a2-51c3'',
      Join (Some ''Bearer tb'') ''9d01b7a2''] = lobby"
  by (simp add: handler_defs example_defs Math_max_def Math_min_def)

lemma duel_built:
  "run sample_conv no_rooms
     [Create (Some ''Bearer ta'') (Some (JObj [(''maxPlayers'', JNum (Fin 2))])) ''4f2a9c1e-7b3d'',
      Join (Some ''Bearer tb'') ''4f2a9c1e'',
      Start (Some ''Bearer ta'') ''4f2a9c1e'' (Some (JObj []))] = duel"
  by (simp add: handler_defs example_defs Math_max_def Math_min_def)

lemma match3_built:
  "run sample_conv no_rooms
     [Create (Some ''Bearer ta'') (Some (JObj [])) ''9d01b7a2-51c3'',
      Join (Some ''Bearer tb'') ''9d01b7a2'',
      Join (Some ''Bearer tc'') ''9d01b7a2'',
      Start (Some ''Bearer ta'') ''9d01b7a2'' (Some (JObj []))] = match3"
  by (simp add: handler_defs example_defs Math_max_def Math_min_def)

lemma odd_match_built:
  "run sample_conv (odd_match\<lparr>rooms := Map.empty\<rparr>)
     [Create (Some ''Bearer ta'') (Some (JObj [(''maxPlayers'', JNum (Fin 2))])) ''4f2a9c1e-7b3d'',
      Join (Some ''Bearer td'') ''4f2a9c1e'',
      Start (Some ''Bearer ta'') ''4f2a9c1e'' (Some (JObj []))] = odd_match"
  by (simp add: handler_defs example_defs Math_max_def Math_min_def)

end
